theory Spec2Isabelle
  imports Main "HOL-Library.Multiset"
begin

section \<open>JavaScript values and string primitives\<close>

text \<open>
  A value that is a string or absent: \<open>JUndefined\<close> is a missing property, \<open>JNull\<close> a
  JSON null, \<open>JStr s\<close> a string. Values of other types are the subject of the type
  \<open>field\<close> below. Strings are lists of characters; the character classes used by the
  server (\<open>[^0-9]\<close>, \<open>trim\<close>, \<open>toUpperCase\<close>) are modelled on their ASCII range.
\<close>

datatype jsval = JUndefined | JNull | JStr string

text \<open>JavaScript truthiness: \<open>undefined\<close>, \<open>null\<close> and the empty string are falsy.\<close>

fun truthy :: "jsval \<Rightarrow> bool" where
  "truthy (JStr s) = (s \<noteq> [])"
| "truthy JUndefined = False"
| "truthy JNull = False"

text \<open>The operator \<open>a || b\<close>.\<close>

definition js_or :: "jsval \<Rightarrow> jsval \<Rightarrow> jsval" where
  "js_or a b = (if truthy a then a else b)"

text \<open>The string held by a value that is known to be a string.\<close>

fun str_of :: "jsval \<Rightarrow> string" where
  "str_of (JStr s) = s"
| "str_of JUndefined = []"
| "str_of JNull = []"

text \<open>The character class \<open>[0-9]\<close>.\<close>

definition is_digit :: "char \<Rightarrow> bool" where
  "is_digit c = (c \<in> set ''0123456789'')"

text \<open>
  \<^verbatim>\<open>function normalizeNumber(num) { if (!num) return ''; return num.replace(/[^0-9]/g, ''); }\<close>
\<close>

definition normalizeNumber :: "jsval \<Rightarrow> string" where
  "normalizeNumber num =
     (if \<not> truthy num then []
      else (case num of JStr s \<Rightarrow> filter is_digit s | _ \<Rightarrow> []))"

text \<open>\<open>String.prototype.toUpperCase\<close> on ASCII letters.\<close>

definition upper_char :: "char \<Rightarrow> char" where
  "upper_char c =
     (case map_of (zip ''abcdefghijklmnopqrstuvwxyz'' ''ABCDEFGHIJKLMNOPQRSTUVWXYZ'') c of
        Some u \<Rightarrow> u
      | None \<Rightarrow> c)"

definition toUpperCase :: "string \<Rightarrow> string" where
  "toUpperCase s = map upper_char s"

text \<open>
  \<open>String.prototype.trim\<close>: white space is tab, line feed, vertical tab, form feed,
  carriage return and space.
\<close>

definition is_ws :: "char \<Rightarrow> bool" where
  "is_ws c = (c \<in> set [CHR 0x09, CHR 0x0A, CHR 0x0B, CHR 0x0C, CHR 0x0D, CHR 0x20])"

definition trim :: "string \<Rightarrow> string" where
  "trim s = rev (dropWhile is_ws (rev (dropWhile is_ws s)))"

text \<open>
  \<open>s.split(',')\<close>: the pieces between separators; the empty string splits into one
  empty piece, and a trailing separator gives a trailing empty piece.
\<close>

fun split_on :: "char \<Rightarrow> string \<Rightarrow> string list" where
  "split_on sep [] = [[]]"
| "split_on sep (c # cs) =
     (if c = sep then [] # split_on sep cs
      else (case split_on sep cs of
              p # ps \<Rightarrow> (c # p) # ps
            | [] \<Rightarrow> [[c]]))"

text \<open>\<open>t.startsWith(p)\<close>.\<close>

definition startsWith :: "string \<Rightarrow> string \<Rightarrow> bool" where
  "startsWith t p = (take (length p) t = p)"

text \<open>
  \<open>Array.prototype.findIndex\<close>: the index of the first element satisfying the predicate,
  \<open>-1\<close> when there is none.
\<close>

fun findIndex :: "('a \<Rightarrow> bool) \<Rightarrow> 'a list \<Rightarrow> int" where
  "findIndex P [] = - 1"
| "findIndex P (x # xs) =
     (if P x then 0
      else (let i = findIndex P xs in if i > - 1 then i + 1 else - 1))"

text \<open>\<open>xs.splice(i, 1)\<close> for an index inside the array: removes the element at \<open>i\<close>.\<close>

definition splice1 :: "'a list \<Rightarrow> nat \<Rightarrow> 'a list" where
  "splice1 xs i = take i xs @ drop (Suc i) xs"


section \<open>Request fields of any type\<close>

text \<open>
  A field of a request as the body parser or the query-string parser delivers it.
  \<open>Val v\<close> is a string, a null or a missing field. \<open>NonString\<close> is a truthy value that is
  not a string: a non-zero number, \<open>true\<close>, an array (a repeated query parameter) or an
  object. The handlers test a field for truthiness and call a string method on it;
  on a \<open>NonString\<close> the call throws a \<open>TypeError\<close>. The falsy values \<open>0\<close> and \<open>false\<close> pass every
  test of the handlers as \<open>null\<close> does and are written \<open>Val JNull\<close>.
\<close>

datatype field = Val jsval | NonString

fun field_truthy :: "field \<Rightarrow> bool" where
  "field_truthy (Val v) = truthy v"
| "field_truthy NonString = True"

text \<open>The operator \<open>a || b\<close> on fields.\<close>

definition field_or :: "field \<Rightarrow> field \<Rightarrow> field" where
  "field_or a b = (if field_truthy a then a else b)"

text \<open>
  An exception that leaves a handler. Express answers an exception thrown by a
  synchronous handler with status 500; an \<open>async\<close> handler that throws outside its
  \<open>try\<close> sends no response of its own.
\<close>

datatype error = TypeError

text \<open>
  \<open>normalizeNumber\<close> on a field of any type: on a truthy value that is not a string,
  \<open>num.replace\<close> is not a function.
\<close>

fun normalizeNumber_any :: "field \<Rightarrow> error + string" where
  "normalizeNumber_any (Val v) = Inr (normalizeNumber v)"
| "normalizeNumber_any NonString = Inl TypeError"

section \<open>Data model\<close>

text \<open>
  An OptOutConfig binds the opt-out and opt-in phrases to a receiving number
  (\<open>config.optoutConfigs\<close>).
\<close>

record optout_config =
  c_id :: string
  optoutNumber :: string
  optoutPhrase :: string
  optinPhrase :: string

text \<open>
  An entry of the opt-out list is an object \<open>{number, configId, originalNumber}\<close> or,
  in older data, a bare string; every read site takes
  \<open>typeof o === 'string' ? o : o.number\<close>.
\<close>

record optout_obj =
  o_number :: jsval
  o_configId :: string
  o_originalNumber :: jsval

datatype optout_entry = OStr string | OObj optout_obj

fun entry_number :: "optout_entry \<Rightarrow> jsval" where
  "entry_number (OStr s) = JStr s"
| "entry_number (OObj r) = o_number r"

text \<open>
  A history entry. The time stamp is the instant, in milliseconds since the epoch, that
  the stored ISO string denotes (\<open>new Date().toISOString()\<close> when written,
  \<open>new Date(item.timestamp)\<close> when read).
\<close>

record history_entry =
  h_number :: string
  h_action :: string
  h_timestamp :: int
  h_receivedOn :: jsval
  h_configId :: jsval

text \<open>
  The opt-out list and the history log as \<open>readJSON\<close> returns them; every handler that
  changes one writes it back with \<open>writeJSON\<close>, so a handler is a function from the state
  before to the state after.
\<close>

record app_state =
  optouts :: "optout_entry list"
  history :: "history_entry list"

text \<open>Response bodies, and a response as status code and body.\<close>

datatype json =
    JS string
  | JB bool
  | JN nat
  | JV jsval
  | JA "json list"
  | JO "(string \<times> json) list"

type_synonym response = "nat \<times> json"

text \<open>
  \<open>optouts.some(o => normalizeNumber(typeof o === 'string' ? o : o.number) === n)\<close>,
  the blocked test every handler repeats.
\<close>

definition optouts_some :: "optout_entry list \<Rightarrow> string \<Rightarrow> bool" where
  "optouts_some os n = list_ex (\<lambda>e. normalizeNumber (entry_number e) = n) os"

text \<open>\<open>optouts.findIndex(o => normalizeNumber(typeof o === 'string' ? o : o.number) === n)\<close>.\<close>

definition optouts_findIndex :: "optout_entry list \<Rightarrow> string \<Rightarrow> int" where
  "optouts_findIndex os n = findIndex (\<lambda>e. normalizeNumber (entry_number e) = n) os"

section \<open>Consent Store endpoints\<close>

text \<open>\<open>GET /api/check/:number\<close>.\<close>

definition api_check :: "string \<Rightarrow> optout_entry list \<Rightarrow> response" where
  "api_check param os =
     (let number = normalizeNumber (JStr param);
          blocked = optouts_some os number
      in (200, JO [(''number'', JS number), (''blocked'', JB blocked)]))"

text \<open>\<open>POST /api/optout\<close> with body field \<open>number\<close>, at time \<open>now\<close>.\<close>

definition api_optout :: "int \<Rightarrow> jsval \<Rightarrow> app_state \<Rightarrow> response \<times> app_state" where
  "api_optout now number st =
     (let normalizedNum = normalizeNumber number;
          exists = optouts_some (optouts st) normalizedNum
      in if \<not> exists then
           ((200, JO [(''success'', JB True)]),
            \<lparr>optouts = optouts st @
               [OObj \<lparr>o_number = JStr normalizedNum, o_configId = ''manual'',
                      o_originalNumber = number\<rparr>],
             history = history st @
               [\<lparr>h_number = normalizedNum, h_action = ''optout'', h_timestamp = now,
                 h_receivedOn = JStr ''manual'', h_configId = JUndefined\<rparr>]\<rparr>)
         else ((200, JO [(''success'', JB True)]), st))"

text \<open>\<open>POST /api/optin\<close> with body field \<open>number\<close>, at time \<open>now\<close>.\<close>

definition api_optin :: "int \<Rightarrow> jsval \<Rightarrow> app_state \<Rightarrow> response \<times> app_state" where
  "api_optin now number st =
     (let normalizedNum = normalizeNumber number;
          index = optouts_findIndex (optouts st) normalizedNum
      in if index > - 1 then
           ((200, JO [(''success'', JB True)]),
            \<lparr>optouts = splice1 (optouts st) (nat index),
             history = history st @
               [\<lparr>h_number = normalizedNum, h_action = ''optin'', h_timestamp = now,
                 h_receivedOn = JStr ''manual'', h_configId = JUndefined\<rparr>]\<rparr>)
         else ((200, JO [(''success'', JB True)]), st))"

text \<open>
  \<open>POST /api/optin/bulk\<close>. The loop body handles one element of \<open>numbers\<close>; its state is
  the opt-out list, the history and the two result lists.
\<close>

type_synonym optin_bulk_acc =
  "optout_entry list \<times> history_entry list \<times> string list \<times> string list"

definition optin_bulk_one :: "int \<Rightarrow> jsval \<Rightarrow> optin_bulk_acc \<Rightarrow> optin_bulk_acc" where
  "optin_bulk_one timestamp number acc =
     (case acc of (os, hs, removed, notFound) \<Rightarrow>
        let normalizedNum = normalizeNumber number in
        if normalizedNum = [] then (os, hs, removed, notFound)
        else
          let index = optouts_findIndex os normalizedNum in
          if index > - 1 then
            (splice1 os (nat index),
             hs @ [\<lparr>h_number = normalizedNum, h_action = ''optin'', h_timestamp = timestamp,
                     h_receivedOn = JStr ''api'', h_configId = JUndefined\<rparr>],
             removed @ [normalizedNum], notFound)
          else (os, hs, removed, notFound @ [normalizedNum]))"

text \<open>
  The loop over \<open>numbers\<close>. \<open>normalizeNumber(number)\<close> is the first statement of the body
  and throws on an element that is a truthy non-string.
\<close>

fun optin_bulk_loop :: "int \<Rightarrow> field list \<Rightarrow> optin_bulk_acc \<Rightarrow> error + optin_bulk_acc" where
  "optin_bulk_loop timestamp [] acc = Inr acc"
| "optin_bulk_loop timestamp (number # rest) acc =
     (case number of
        NonString \<Rightarrow> Inl TypeError
      | Val v \<Rightarrow> optin_bulk_loop timestamp rest (optin_bulk_one timestamp v acc))"

definition optin_bulk_json :: "nat \<Rightarrow> string list \<Rightarrow> string list \<Rightarrow> json" where
  "optin_bulk_json n removed notFound =
     JO [(''success'', JB True),
         (''summary'', JO [(''total'', JN n), (''removed'', JN (length removed)),
                           (''notFound'', JN (length notFound))]),
         (''results'', JO [(''removed'', JA (map JS removed)),
                           (''notFound'', JA (map JS notFound))])]"

text \<open>
  The body field \<open>numbers\<close> is \<open>None\<close> when it is missing or not an array. The result is
  the exception, or the response and the state after. An exception leaves the handler
  before \<open>writeJSON\<close>; what the passes before it did to the arrays in memory is not part
  of the result.
\<close>

definition api_optin_bulk ::
  "int \<Rightarrow> field list option \<Rightarrow> app_state \<Rightarrow> error + (response \<times> app_state)" where
  "api_optin_bulk now numbers st =
     (case numbers of
        None \<Rightarrow> Inr ((400, JO [(''error'', JS ''Missing or invalid numbers array'')]), st)
      | Some ns \<Rightarrow>
          if ns = [] then
            Inr ((400, JO [(''error'', JS ''Missing or invalid numbers array'')]), st)
          else
            (case optin_bulk_loop now ns (optouts st, history st, [], []) of
               Inl e \<Rightarrow> Inl e
             | Inr (os, hs, removed, notFound) \<Rightarrow>
                 Inr ((200, optin_bulk_json (length ns) removed notFound),
                      \<lparr>optouts = os, history = hs\<rparr>)))"

text \<open>
  \<open>POST /api/optin\<close> with a body field \<open>number\<close> of any type: \<open>normalizeNumber(number)\<close> is
  the first use of the field and precedes every change of the state; on a string or an
  absent field the handler is \<open>api_optin\<close>.
\<close>

definition api_optin_any :: "int \<Rightarrow> field \<Rightarrow> app_state \<Rightarrow> error + (response \<times> app_state)" where
  "api_optin_any now number st =
     (case number of
        NonString \<Rightarrow> Inl TypeError
      | Val v \<Rightarrow> Inr (api_optin now v st))"

section \<open>Inbound Event Processor\<close>

record inbound_payload =
  p_msisdn :: jsval
  p_from :: jsval
  p_to :: jsval
  p_text :: jsval
  p_message :: jsval

text \<open>\<open>const from = data.msisdn || data.from\<close>.\<close>

definition inbound_from :: "inbound_payload \<Rightarrow> jsval" where
  "inbound_from data = js_or (p_msisdn data) (p_from data)"

text \<open>\<open>const text = (data.text || data.message || '').trim().toUpperCase()\<close>.\<close>

definition inbound_text :: "inbound_payload \<Rightarrow> string" where
  "inbound_text data =
     toUpperCase (trim (str_of (js_or (js_or (p_text data) (p_message data)) (JStr []))))"

text \<open>\<open>config.optoutConfigs.find(c => normalizeNumber(c.optoutNumber) === normalizedTo)\<close>.\<close>

definition matchingConfig :: "optout_config list \<Rightarrow> string \<Rightarrow> optout_config option" where
  "matchingConfig configs normalizedTo =
     find (\<lambda>c. normalizeNumber (JStr (optoutNumber c)) = normalizedTo) configs"

text \<open>\<open>phrase.toUpperCase().split(',').map(p => p.trim())\<close>.\<close>

definition phrases_of :: "string \<Rightarrow> string list" where
  "phrases_of s = map trim (split_on CHR '','' (toUpperCase s))"

text \<open>\<open>phrases.some(phrase => text === phrase || text.startsWith(phrase + ' '))\<close>.\<close>

definition phrases_some :: "string list \<Rightarrow> string \<Rightarrow> bool" where
  "phrases_some phrases text =
     list_ex (\<lambda>phrase. text = phrase \<or> startsWith text (phrase @ '' '')) phrases"

text \<open>
  \<open>handleInboundSMS\<close>, for \<open>GET\<close> and \<open>POST /webhooks/inbound-sms\<close>, at time \<open>now\<close>.
  \<open>res.sendStatus(200)\<close> is the response \<open>(200, JS ''OK'')\<close>.
\<close>

definition handleInboundSMS ::
  "optout_config list \<Rightarrow> int \<Rightarrow> inbound_payload \<Rightarrow> app_state \<Rightarrow> response \<times> app_state" where
  "handleInboundSMS configs now data st =
     (let from = inbound_from data;
          to = p_to data;
          text = inbound_text data
      in if \<not> truthy from \<or> text = [] then ((200, JS ''OK''), st)
         else
           let timestamp = now;
               normalizedTo = normalizeNumber to;
               normalizedFrom = normalizeNumber from
           in (case matchingConfig configs normalizedTo of
                 None \<Rightarrow> ((200, JS ''OK''), st)
               | Some mc \<Rightarrow>
                   let optoutPhrases = phrases_of (optoutPhrase mc);
                       optinPhrases = phrases_of (optinPhrase mc);
                       isOptout = phrases_some optoutPhrases text;
                       isOptin = phrases_some optinPhrases text
                   in if isOptout then
                        let exists = optouts_some (optouts st) normalizedFrom in
                        ((200, JS ''OK''),
                         \<lparr>optouts =
                            (if \<not> exists then
                               optouts st @
                                 [OObj \<lparr>o_number = JStr normalizedFrom, o_configId = c_id mc,
                                        o_originalNumber = JUndefined\<rparr>]
                             else optouts st),
                          history = history st @
                            [\<lparr>h_number = normalizedFrom, h_action = ''optout'',
                              h_timestamp = timestamp, h_receivedOn = to,
                              h_configId = JStr (c_id mc)\<rparr>]\<rparr>)
                      else if isOptin then
                        let index = optouts_findIndex (optouts st) normalizedFrom in
                        ((200, JS ''OK''),
                         \<lparr>optouts =
                            (if index > - 1 then splice1 (optouts st) (nat index)
                             else optouts st),
                          history = history st @
                            [\<lparr>h_number = normalizedFrom, h_action = ''optin'',
                              h_timestamp = timestamp, h_receivedOn = to,
                              h_configId = JStr (c_id mc)\<rparr>]\<rparr>)
                      else ((200, JS ''OK''), st)))"

text \<open>
  The webhook on a payload with fields of any type. \<open>.trim()\<close> is called on
  \<open>data.text || data.message || ''\<close> before the test for a missing sender or text, and
  \<open>normalizeNumber(to)\<close> and \<open>normalizeNumber(from)\<close> are called after it; each throws on
  a truthy non-string, before any change of the state. Where they do not throw, the
  sender, the destination and the text are strings or absent and the handler is
  \<open>handleInboundSMS\<close> on them. The result is the exception, or the response and the state
  after.
\<close>

record inbound_payload_any =
  r_msisdn :: field
  r_from :: field
  r_to :: field
  r_text :: field
  r_message :: field

definition handleInboundSMS_any ::
  "optout_config list \<Rightarrow> int \<Rightarrow> inbound_payload_any \<Rightarrow> app_state
   \<Rightarrow> error + (response \<times> app_state)" where
  "handleInboundSMS_any configs now data st =
     (let from = field_or (r_msisdn data) (r_from data);
          to = r_to data
      in (case field_or (field_or (r_text data) (r_message data)) (Val (JStr [])) of
            NonString \<Rightarrow> Inl TypeError
          | Val tv \<Rightarrow>
              let text = toUpperCase (trim (str_of tv)) in
              if \<not> field_truthy from \<or> text = [] then Inr ((200, JS ''OK''), st)
              else
                (case to of
                   NonString \<Rightarrow> Inl TypeError
                 | Val tov \<Rightarrow>
                     (case from of
                        NonString \<Rightarrow> Inl TypeError
                      | Val fromv \<Rightarrow>
                          Inr (handleInboundSMS configs now
                                 \<lparr>p_msisdn = fromv, p_from = JUndefined, p_to = tov,
                                  p_text = tv, p_message = JUndefined\<rparr> st)))))"

section \<open>Send Gate\<close>

text \<open>
  The outbound transport is the \<open>fetch\<close> of \<open>https://rest.nexmo.com/sms/json\<close> followed by
  \<open>response.json()\<close>. It is a parameter of the send handlers: a function from its own
  state and the request body to the outcome and its next state. The outcome is an
  exception with its message, or the parsed reply \<open>data\<close> together with what
  \<open>data.messages && data.messages[0]\<close> evaluates to. Every handler returns its response,
  or the exception that left it, and beside it the list of requests it passed to the
  transport and the transport's state.
\<close>

record credentials =
  apiKey :: jsval
  apiSecret :: jsval

record sms_request =
  api_key :: field
  api_secret :: field
  sms_to :: string
  sms_from :: field
  sms_text :: field

record vonage_message =
  m_status :: jsval
  m_message_id :: jsval
  m_error_text :: jsval

datatype fetch_result = FetchThrows string | FetchData json "vonage_message option"

type_synonym 't transport = "'t \<Rightarrow> sms_request \<Rightarrow> fetch_result \<times> 't"

record send_body =
  b_to :: field
  b_from :: field
  b_text :: field

text \<open>
  \<open>POST /api/send\<close>; \<open>creds\<close> is what \<open>getActiveCredentials()\<close> returns.
  \<open>normalizeNumber(to)\<close> stands before the \<open>try\<close>; \<open>from.replace\<close> stands inside it, where
  the body of the request is built, so its \<open>TypeError\<close> is caught and answered with 500
  before \<open>fetch\<close> is called.
\<close>

definition api_send ::
  "'t transport \<Rightarrow> credentials \<Rightarrow> send_body \<Rightarrow> optout_entry list \<Rightarrow> 't
   \<Rightarrow> (error + response) \<times> sms_request list \<times> 't" where
  "api_send fetch creds body os t =
     (if \<not> truthy (apiKey creds) \<or> \<not> truthy (apiSecret creds) then
        (Inr (400, JO [(''error'', JS ''API credentials not configured'')]), [], t)
      else
        let to = b_to body; from = b_from body; text = b_text body in
        if \<not> field_truthy to \<or> \<not> field_truthy from \<or> \<not> field_truthy text then
          (Inr (400, JO [(''error'', JS ''Missing required fields: to, from, text'')]), [], t)
        else
          (case normalizeNumber_any to of
             Inl e \<Rightarrow> (Inl e, [], t)
           | Inr cleanTo \<Rightarrow>
               let blocked = optouts_some os cleanTo in
               if blocked then
                 (Inr (403, JO [(''error'', JS ''Number is opted out''), (''to'', JS cleanTo),
                                (''blocked'', JB True), (''status'', JS ''rejected'')]), [], t)
               else
                 (case from of
                    NonString \<Rightarrow>
                      (Inr (500, JO [(''error'', JS ''from.replace is not a function'')]), [], t)
                  | Val fromv \<Rightarrow>
                      let request = \<lparr>api_key = Val (apiKey creds),
                                     api_secret = Val (apiSecret creds),
                                     sms_to = cleanTo,
                                     sms_from = Val (JStr (filter is_digit (str_of fromv))),
                                     sms_text = text\<rparr>
                      in (case fetch t request of
                            (FetchThrows message, t') \<Rightarrow>
                              (Inr (500, JO [(''error'', JS message)]), [request], t')
                          | (FetchData data None, t') \<Rightarrow>
                              (Inr (500, JO [(''error'', JS ''Unexpected response from Vonage''),
                                             (''data'', data)]), [request], t')
                          | (FetchData data (Some msg), t') \<Rightarrow>
                              if m_status msg = JStr ''0'' then
                                (Inr (200, JO [(''success'', JB True), (''to'', JS cleanTo),
                                               (''messageId'', JV (m_message_id msg)),
                                               (''status'', JS ''sent'')]), [request], t')
                              else
                                (Inr (400, JO [(''error'', JV (m_error_text msg)),
                                               (''to'', JS cleanTo), (''status'', JS ''failed''),
                                               (''errorCode'', JV (m_status msg))]),
                                 [request], t')))))"

text \<open>
  \<open>POST /sms/json\<close>, the SDK-compatible endpoint. The credentials are those of the request
  body or else the configured ones. Every response has status code 200; errors are
  in-band, in the Vonage envelope. \<open>normalizeNumber(to)\<close> stands before the \<open>try\<close>; \<open>from\<close> and
  \<open>text\<close> are forwarded as they are.
\<close>

record shim_body =
  sb_api_key :: field
  sb_api_secret :: field
  sb_to :: field
  sb_from :: field
  sb_text :: field

definition vonage_envelope :: "(string \<times> json) list \<Rightarrow> json" where
  "vonage_envelope message = JO [(''message-count'', JS ''1''), (''messages'', JA [JO message])]"

definition sms_json ::
  "'t transport \<Rightarrow> credentials \<Rightarrow> shim_body \<Rightarrow> optout_entry list \<Rightarrow> 't
   \<Rightarrow> (error + response) \<times> sms_request list \<times> 't" where
  "sms_json fetch configuredCreds body os t =
     (let to = sb_to body; from = sb_from body; text = sb_text body;
          key = field_or (sb_api_key body) (Val (apiKey configuredCreds));
          secret = field_or (sb_api_secret body) (Val (apiSecret configuredCreds))
      in if \<not> field_truthy key \<or> \<not> field_truthy secret then
           (Inr (200, vonage_envelope [(''status'', JS ''2''),
                                       (''error-text'', JS ''Missing API credentials'')]), [], t)
         else if \<not> field_truthy to \<or> \<not> field_truthy from \<or> \<not> field_truthy text then
           (Inr (200, vonage_envelope [(''status'', JS ''2''),
                   (''error-text'', JS ''Missing required fields: to, from, text'')]), [], t)
         else
           (case normalizeNumber_any to of
              Inl e \<Rightarrow> (Inl e, [], t)
            | Inr cleanTo \<Rightarrow>
                let blocked = optouts_some os cleanTo in
                if blocked then
                  (Inr (200, vonage_envelope [(''to'', JS cleanTo), (''status'', JS ''99''),
                                              (''error-text'', JS ''Number is opted out'')]),
                   [], t)
                else
                  let request = \<lparr>api_key = key, api_secret = secret, sms_to = cleanTo,
                                 sms_from = from, sms_text = text\<rparr>
                  in (case fetch t request of
                        (FetchThrows message, t') \<Rightarrow>
                          (Inr (200, vonage_envelope [(''status'', JS ''5''),
                                                      (''error-text'', JS message)]),
                           [request], t')
                      | (FetchData data m, t') \<Rightarrow> (Inr (200, data), [request], t'))))"

text \<open>
  \<open>POST /api/send/bulk\<close>. The loop body below is the part of the loop after
  \<open>normalizeNumber(recipient)\<close>, for a recipient that is a string or absent; its state is
  the three result lists, the transport calls made so far and the transport's state.
  \<open>normalizeNumber(from)\<close> stands inside the \<open>try\<close>, where the body of the request is built,
  so its \<open>TypeError\<close> is caught and recorded under \<open>failed\<close> before \<open>fetch\<close> is called.
\<close>

record bulk_results =
  r_sent :: "json list"
  r_blocked :: "json list"
  r_failed :: "json list"

definition bulk_request :: "credentials \<Rightarrow> jsval \<Rightarrow> field \<Rightarrow> string \<Rightarrow> sms_request" where
  "bulk_request creds fromv text cleanTo =
     \<lparr>api_key = Val (apiKey creds), api_secret = Val (apiSecret creds),
      sms_to = cleanTo, sms_from = Val (JStr (normalizeNumber fromv)), sms_text = text\<rparr>"

definition bulk_send_one ::
  "'t transport \<Rightarrow> credentials \<Rightarrow> optout_entry list \<Rightarrow> field \<Rightarrow> field \<Rightarrow> jsval
   \<Rightarrow> bulk_results \<times> sms_request list \<times> 't \<Rightarrow> bulk_results \<times> sms_request list \<times> 't" where
  "bulk_send_one fetch creds os from text recipient acc =
     (case acc of (results, calls, t) \<Rightarrow>
        let cleanTo = normalizeNumber recipient in
        if cleanTo = [] then
          (results\<lparr>r_failed := r_failed results @
              [JO [(''to'', JV recipient), (''error'', JS ''Invalid number'')]]\<rparr>, calls, t)
        else
          let isBlocked = optouts_some os cleanTo in
          if isBlocked then
            (results\<lparr>r_blocked := r_blocked results @
                [JO [(''to'', JS cleanTo), (''reason'', JS ''opted-out'')]]\<rparr>, calls, t)
          else
            (case from of
               NonString \<Rightarrow>
                 (results\<lparr>r_failed := r_failed results @
                     [JO [(''to'', JS cleanTo),
                          (''error'', JS ''num.replace is not a function'')]]\<rparr>, calls, t)
             | Val fromv \<Rightarrow>
                 let request = bulk_request creds fromv text cleanTo in
                 (case fetch t request of
                    (FetchThrows message, t') \<Rightarrow>
                      (results\<lparr>r_failed := r_failed results @
                          [JO [(''to'', JS cleanTo), (''error'', JS message)]]\<rparr>,
                       calls @ [request], t')
                  | (FetchData data None, t') \<Rightarrow>
                      (results\<lparr>r_failed := r_failed results @
                          [JO [(''to'', JS cleanTo),
                               (''error'', JS ''Unexpected response'')]]\<rparr>,
                       calls @ [request], t')
                  | (FetchData data (Some msg), t') \<Rightarrow>
                      if m_status msg = JStr ''0'' then
                        (results\<lparr>r_sent := r_sent results @
                            [JO [(''to'', JS cleanTo),
                                 (''messageId'', JV (m_message_id msg))]]\<rparr>,
                         calls @ [request], t')
                      else
                        (results\<lparr>r_failed := r_failed results @
                            [JO [(''to'', JS cleanTo), (''error'', JV (m_error_text msg)),
                                 (''errorCode'', JV (m_status msg))]]\<rparr>,
                         calls @ [request], t'))))"

text \<open>
  The loop over \<open>recipients\<close>. \<open>normalizeNumber(recipient)\<close> is the first statement of the
  body and stands outside the \<open>try\<close>: on a recipient that is a truthy non-string the
  exception leaves the handler, after the transport calls of the recipients before it.
\<close>

fun bulk_send_loop ::
  "'t transport \<Rightarrow> credentials \<Rightarrow> optout_entry list \<Rightarrow> field \<Rightarrow> field \<Rightarrow> field list
   \<Rightarrow> bulk_results \<times> sms_request list \<times> 't
   \<Rightarrow> (error + bulk_results) \<times> sms_request list \<times> 't" where
  "bulk_send_loop fetch creds os from text [] acc =
     (case acc of (results, calls, t) \<Rightarrow> (Inr results, calls, t))"
| "bulk_send_loop fetch creds os from text (recipient # rest) acc =
     (case recipient of
        NonString \<Rightarrow> (case acc of (results, calls, t) \<Rightarrow> (Inl TypeError, calls, t))
      | Val v \<Rightarrow>
          bulk_send_loop fetch creds os from text rest
            (bulk_send_one fetch creds os from text v acc))"

definition bulk_json :: "nat \<Rightarrow> bulk_results \<Rightarrow> json" where
  "bulk_json n results =
     JO [(''summary'', JO [(''total'', JN n),
                           (''sent'', JN (length (r_sent results))),
                           (''blocked'', JN (length (r_blocked results))),
                           (''failed'', JN (length (r_failed results)))]),
         (''results'', JO [(''sent'', JA (r_sent results)),
                           (''blocked'', JA (r_blocked results)),
                           (''failed'', JA (r_failed results))])]"

record bulk_body =
  bb_recipients :: "field list option"
  bb_from :: field
  bb_text :: field

text \<open>The body field \<open>recipients\<close> is \<open>None\<close> when it is missing or not an array.\<close>

definition api_send_bulk ::
  "'t transport \<Rightarrow> credentials \<Rightarrow> bulk_body \<Rightarrow> optout_entry list \<Rightarrow> 't
   \<Rightarrow> (error + response) \<times> sms_request list \<times> 't" where
  "api_send_bulk fetch creds body os t =
     (if \<not> truthy (apiKey creds) \<or> \<not> truthy (apiSecret creds) then
        (Inr (400, JO [(''error'', JS ''API credentials not configured'')]), [], t)
      else
        (case bb_recipients body of
           None \<Rightarrow>
             (Inr (400, JO [(''error'', JS ''Missing or invalid recipients array'')]), [], t)
         | Some recipients \<Rightarrow>
             if recipients = [] then
               (Inr (400, JO [(''error'', JS ''Missing or invalid recipients array'')]), [], t)
             else if \<not> field_truthy (bb_from body) \<or> \<not> field_truthy (bb_text body) then
               (Inr (400, JO [(''error'', JS ''Missing required fields: from, text'')]), [], t)
             else
               (case bulk_send_loop fetch creds os (bb_from body) (bb_text body) recipients
                       (\<lparr>r_sent = [], r_blocked = [], r_failed = []\<rparr>, [], t) of
                  (Inl e, calls, t') \<Rightarrow> (Inl e, calls, t')
                | (Inr results, calls, t') \<Rightarrow>
                    (Inr (200, bulk_json (length recipients) results), calls, t'))))"

section \<open>History Log\<close>

text \<open>
  A \<open>Date\<close> is its time value: milliseconds since the epoch, or \<open>None\<close> for an Invalid
  Date. Comparing two dates compares the time values, and a comparison with an Invalid
  Date is false.
\<close>

type_synonym jsdate = "int option"

definition msPerDay :: int where
  "msPerDay = 24 * 60 * 60 * 1000"

definition date_ge :: "jsdate \<Rightarrow> jsdate \<Rightarrow> bool" where
  "date_ge a b = (case (a, b) of (Some x, Some y) \<Rightarrow> x \<ge> y | _ \<Rightarrow> False)"

definition date_le :: "jsdate \<Rightarrow> jsdate \<Rightarrow> bool" where
  "date_le a b = (case (a, b) of (Some x, Some y) \<Rightarrow> x \<le> y | _ \<Rightarrow> False)"

text \<open>
  The time zone of the server, as ECMAScript sees it: the offset of local time from
  UTC in milliseconds at a UTC instant (\<open>LocalTZA(t, true)\<close>) and at a local time value
  (\<open>LocalTZA(t, false)\<close>). The two functions are parameters, so that an offset that
  changes with the date (daylight saving) is covered.
\<close>

record zone =
  offset_at_utc :: "int \<Rightarrow> int"
  offset_at_local :: "int \<Rightarrow> int"

definition LocalTime :: "zone \<Rightarrow> int \<Rightarrow> int" where
  "LocalTime z t = t + offset_at_utc z t"

definition UTC :: "zone \<Rightarrow> int \<Rightarrow> int" where
  "UTC z lt = lt - offset_at_local z lt"

text \<open>
  \<open>d.setHours(h, m, s, ms)\<close>: the date with the day of the local time of \<open>d\<close> and the given
  time of day, \<open>UTC(MakeDate(Day(LocalTime(t)), MakeTime(h, m, s, ms)))\<close>.
\<close>

definition setHours :: "zone \<Rightarrow> int \<Rightarrow> int \<Rightarrow> int \<Rightarrow> int \<Rightarrow> jsdate \<Rightarrow> jsdate" where
  "setHours z h m s ms d =
     (case d of
        None \<Rightarrow> None
      | Some t \<Rightarrow>
          Some (UTC z ((LocalTime z t div msPerDay) * msPerDay
                       + (((h * 60 + m) * 60 + s) * 1000 + ms))))"

text \<open>
  \<open>new Date(string)\<close>. A date-only string \<open>YYYY-MM-DD\<close> that names a day of the calendar
  is, by the ECMAScript date-time string format, 00:00:00.000 UTC of that day. What any
  other string parses to is left to the parameter \<open>other\<close>.
\<close>

definition digit_of :: "char \<Rightarrow> nat option" where
  "digit_of c = map_of (zip ''0123456789'' [0, 1, 2, 3, 4, 5, 6, 7, 8, 9]) c"

fun decimal_from :: "nat \<Rightarrow> string \<Rightarrow> nat option" where
  "decimal_from n [] = Some n"
| "decimal_from n (c # cs) =
     (case digit_of c of None \<Rightarrow> None | Some d \<Rightarrow> decimal_from (10 * n + d) cs)"

definition leap_year :: "nat \<Rightarrow> bool" where
  "leap_year y = ((y mod 4 = 0 \<and> y mod 100 \<noteq> 0) \<or> y mod 400 = 0)"

definition days_in_month :: "nat \<Rightarrow> nat \<Rightarrow> nat" where
  "days_in_month y m =
     (if m = 2 then (if leap_year y then 29 else 28)
      else if m = 4 \<or> m = 6 \<or> m = 9 \<or> m = 11 then 30
      else 31)"

text \<open>The number of the day \<open>y-m-d\<close> of the Gregorian calendar, counted from 1970-01-01.\<close>

definition days_from_civil :: "int \<Rightarrow> int \<Rightarrow> int \<Rightarrow> int" where
  "days_from_civil y m d =
     (let y' = (if m \<le> 2 then y - 1 else y);
          era = y' div 400;
          yoe = y' mod 400;
          doy = (153 * (if m > 2 then m - 3 else m + 9) + 2) div 5 + d - 1;
          doe = yoe * 365 + yoe div 4 - yoe div 100 + doy
      in era * 146097 + doe - 719468)"

definition iso_date_only :: "string \<Rightarrow> jsdate" where
  "iso_date_only s =
     (if length s = 10 \<and> s ! 4 = CHR ''-'' \<and> s ! 7 = CHR ''-'' then
        (case (decimal_from 0 (take 4 s), decimal_from 0 (take 2 (drop 5 s)),
               decimal_from 0 (drop 8 s)) of
           (Some y, Some m, Some d) \<Rightarrow>
             if 1 \<le> m \<and> m \<le> 12 \<and> 1 \<le> d \<and> d \<le> days_in_month y m then
               Some (days_from_civil (int y) (int m) (int d) * msPerDay)
             else None
         | _ \<Rightarrow> None)
      else None)"

definition newDate :: "(string \<Rightarrow> jsdate) \<Rightarrow> string \<Rightarrow> jsdate" where
  "newDate other s = (case iso_date_only s of Some t \<Rightarrow> Some t | None \<Rightarrow> other s)"

text \<open>\<open>GET /api/stats\<close> at time \<open>now\<close>.\<close>

definition api_stats :: "int \<Rightarrow> history_entry list \<Rightarrow> response" where
  "api_stats now hist =
     (let twentyFourHoursAgo = now - 24 * 60 * 60 * 1000;
          recentHistory = filter (\<lambda>item. h_timestamp item \<ge> twentyFourHoursAgo) hist;
          optins = length (filter (\<lambda>item. h_action item = ''optin'') recentHistory);
          optouts = length (filter (\<lambda>item. h_action item = ''optout'') recentHistory)
      in (200, JO [(''optins'', JN optins), (''optouts'', JN optouts)]))"

text \<open>
  \<open>GET /api/history\<close>, returning the array it sends with status 200.
  \<open>Array.prototype.sort\<close> is stable, and the comparator
  \<open>new Date(b.timestamp) - new Date(a.timestamp)\<close> orders by descending time stamp. The
  sort works in place: when no filter applies it reorders the cached history array
  itself; the function below is the response only.
\<close>

record history_query =
  q_startDate :: jsval
  q_endDate :: jsval
  q_action :: jsval

definition api_history ::
  "zone \<Rightarrow> (string \<Rightarrow> jsdate) \<Rightarrow> history_query \<Rightarrow> history_entry list
   \<Rightarrow> history_entry list" where
  "api_history z other q hist =
     (let startDate = q_startDate q; endDate = q_endDate q; action = q_action q;
          h1 = (if truthy startDate then
                  let start = setHours z 0 0 0 0 (newDate other (str_of startDate)) in
                  filter (\<lambda>item. date_ge (Some (h_timestamp item)) start) hist
                else hist);
          h2 = (if truthy endDate then
                  let end' = setHours z 23 59 59 999 (newDate other (str_of endDate)) in
                  filter (\<lambda>item. date_le (Some (h_timestamp item)) end') h1
                else h1);
          h3 = (if truthy action \<and> action \<noteq> JStr ''all'' then
                  filter (\<lambda>item. JStr (h_action item) = action) h2
                else h2)
      in sort_key (\<lambda>item. - h_timestamp item) h3)"

section \<open>The specification's notions\<close>

text \<open>
  The definitions of this section follow the wording of the specification, to be
  compared with the handlers above.
\<close>

text \<open>
  The Phrase Matcher: \<open>T\<close> is the trimmed, uppercased message text; the phrase lists are
  the configured phrases uppercased, split on commas, each piece trimmed; a phrase \<open>P\<close>
  matches iff \<open>T = P\<close> or \<open>T\<close> starts with \<open>P\<close> followed by a space; opt-out is checked
  before opt-in.
\<close>

datatype classification = OPTOUT | OPTIN | NONE

definition spec_phrases :: "string \<Rightarrow> string list" where
  "spec_phrases s = map trim (split_on CHR '','' (toUpperCase s))"

definition spec_matches :: "string \<Rightarrow> string \<Rightarrow> bool" where
  "spec_matches T P = (T = P \<or> startsWith T (P @ '' ''))"

definition spec_classify :: "optout_config \<Rightarrow> string \<Rightarrow> classification" where
  "spec_classify c message =
     (let T = toUpperCase (trim message) in
      if (\<exists>P \<in> set (spec_phrases (optoutPhrase c)). spec_matches T P) then OPTOUT
      else if (\<exists>P \<in> set (spec_phrases (optinPhrase c)). spec_matches T P) then OPTIN
      else NONE)"

text \<open>The message text of an inbound payload: \<open>data.text || data.message || ''\<close>.\<close>

definition message_text :: "inbound_payload \<Rightarrow> string" where
  "message_text data = str_of (js_or (js_or (p_text data) (p_message data)) (JStr []))"

text \<open>
  No two entries of the opt-out list have the same normalized number. The empty list
  has the property and every handler that adds an entry checks for an existing one.
\<close>

definition distinct_numbers :: "optout_entry list \<Rightarrow> bool" where
  "distinct_numbers os = distinct (map (\<lambda>e. normalizeNumber (entry_number e)) os)"

text \<open>The entries of the opt-out list whose normalized number is \<open>n\<close>.\<close>

definition entries_for :: "optout_entry list \<Rightarrow> string \<Rightarrow> optout_entry list" where
  "entries_for os n = filter (\<lambda>e. normalizeNumber (entry_number e) = n) os"

text \<open>The list without the first entry whose normalized number is \<open>n\<close>.\<close>

definition remove_first :: "optout_entry list \<Rightarrow> string \<Rightarrow> optout_entry list" where
  "remove_first os n =
     takeWhile (\<lambda>e. normalizeNumber (entry_number e) \<noteq> n) os
     @ tl (dropWhile (\<lambda>e. normalizeNumber (entry_number e) \<noteq> n) os)"

text \<open>The trailing 24-hour window \<open>[now - 24h, now]\<close>.\<close>

definition in_window :: "int \<Rightarrow> history_entry \<Rightarrow> bool" where
  "in_window now item =
     (now - 24 * 60 * 60 * 1000 \<le> h_timestamp item \<and> h_timestamp item \<le> now)"

text \<open>
  A zone whose offset from UTC is the same at every date.
\<close>

definition const_zone :: "int \<Rightarrow> zone" where
  "const_zone tza = \<lparr>offset_at_utc = (\<lambda>t. tza), offset_at_local = (\<lambda>t. tza)\<rparr>"

text \<open>
  The day with number \<open>D\<close> (counted from 1970-01-01) on the clock of a zone of constant
  offset \<open>tza\<close>: its first and its last millisecond.
\<close>

definition day_start :: "int \<Rightarrow> int \<Rightarrow> int" where
  "day_start tza D = D * msPerDay - tza"

definition day_end :: "int \<Rightarrow> int \<Rightarrow> int" where
  "day_end tza D = D * msPerDay + (msPerDay - 1) - tza"

text \<open>
  The bulk opt-in in the words of the specification. The numbers are taken in order. A
  number whose normalized form is empty is skipped. When an entry with the normalized
  number is in the opt-out list, the first such entry is removed, an \<open>optin\<close> history
  entry is appended and the number is reported under \<open>removed\<close>; otherwise list and
  history stay as they are and the number is reported under \<open>notFound\<close>.
\<close>

fun spec_optin_bulk :: "int \<Rightarrow> jsval list \<Rightarrow> optin_bulk_acc \<Rightarrow> optin_bulk_acc" where
  "spec_optin_bulk ts [] acc = acc"
| "spec_optin_bulk ts (x # xs) (os, hs, removed, notFound) =
     (let n = normalizeNumber x in
      if n = [] then spec_optin_bulk ts xs (os, hs, removed, notFound)
      else if (\<exists>e\<in>set os. normalizeNumber (entry_number e) = n) then
        spec_optin_bulk ts xs
          (remove_first os n,
           hs @ [\<lparr>h_number = n, h_action = ''optin'', h_timestamp = ts,
                   h_receivedOn = JStr ''api'', h_configId = JUndefined\<rparr>],
           removed @ [n], notFound)
      else spec_optin_bulk ts xs (os, hs, removed, notFound @ [n]))"

section \<open>Properties\<close>

subsection \<open>The identity normalizer\<close>

lemma normalizeNumber_JStr: "normalizeNumber (JStr s) = filter is_digit s"
  by (cases s) (simp_all add: normalizeNumber_def)

lemma normalizeNumber_idem: "normalizeNumber (JStr (normalizeNumber x)) = normalizeNumber x"
  by (simp add: normalizeNumber_JStr) (simp add: normalizeNumber_def split: jsval.splits)

text \<open>
  Claim C6. For every input string \<open>x\<close>, \<open>normalizeNumber\<close> returns \<open>x\<close> with every character
  that is not a decimal digit removed; it returns the empty string for \<open>null\<close>,
  \<open>undefined\<close> and the empty string; and it is idempotent, for every input.
\<close>

theorem normalizeNumber_strips_non_digits:
  "normalizeNumber (JStr x) = filter (\<lambda>c. c \<in> set ''0123456789'') x
   \<and> normalizeNumber JNull = []
   \<and> normalizeNumber JUndefined = []
   \<and> normalizeNumber (JStr []) = []
   \<and> normalizeNumber (JStr (normalizeNumber v)) = normalizeNumber v"
proof -
  have strip: "normalizeNumber (JStr x) = filter (\<lambda>c. c \<in> set ''0123456789'') x"
    unfolding normalizeNumber_JStr by (rule filter_cong) (simp_all add: is_digit_def)
  have empties: "normalizeNumber JNull = []" "normalizeNumber JUndefined = []"
    "normalizeNumber (JStr []) = []"
    by (simp_all add: normalizeNumber_def)
  show ?thesis
    using strip empties normalizeNumber_idem [of v] by blast
qed

subsection \<open>First index and removal of the first match\<close>

lemma findIndex_gt_iff: "(findIndex P xs > - 1) = list_ex P xs"
  by (induction xs) (auto simp: Let_def)

lemma splice1_findIndex:
  "list_ex P xs \<Longrightarrow>
   splice1 xs (nat (findIndex P xs)) = takeWhile (\<lambda>x. \<not> P x) xs @ tl (dropWhile (\<lambda>x. \<not> P x) xs)"
proof (induction xs)
  case Nil
  then show ?case by simp
next
  case (Cons x xs)
  show ?case
  proof (cases "P x")
    case True
    then show ?thesis by (simp add: splice1_def)
  next
    case False
    with Cons.prems have ex: "list_ex P xs" by simp
    then have pos: "findIndex P xs > - 1" by (simp add: findIndex_gt_iff)
    then have "nat (findIndex P xs + 1) = Suc (nat (findIndex P xs))" by simp
    with False pos Cons.IH [OF ex] show ?thesis
      by (simp add: splice1_def Let_def)
  qed
qed

lemma remove_first_subset:
  "set (takeWhile Q xs @ tl (dropWhile Q xs)) \<subseteq> set xs"
  by (induction xs) auto

lemma remove_first_shorter:
  "list_ex P xs \<Longrightarrow>
   Suc (length (takeWhile (\<lambda>x. \<not> P x) xs @ tl (dropWhile (\<lambda>x. \<not> P x) xs))) = length xs"
  by (induction xs) auto

lemma remove_first_no_match:
  "distinct (map f xs) \<Longrightarrow>
   \<not> list_ex (\<lambda>x. f x = n)
        (takeWhile (\<lambda>x. f x \<noteq> n) xs @ tl (dropWhile (\<lambda>x. f x \<noteq> n) xs))"
proof (induction xs)
  case Nil
  then show ?case by simp
next
  case (Cons x xs)
  from Cons.prems have d: "distinct (map f xs)" and nx: "f x \<notin> f ` set xs"
    by simp_all
  show ?case
  proof (cases "f x = n")
    case True
    with nx have "\<forall>y\<in>set xs. f y \<noteq> n" by blast
    with True show ?thesis by (simp add: list_ex_iff)
  next
    case False
    with Cons.IH [OF d] show ?thesis by simp
  qed
qed

lemma remove_first_keeps_distinct:
  "distinct (map f xs) \<Longrightarrow>
   distinct (map f (takeWhile Q xs @ tl (dropWhile Q xs)))"
proof (induction xs)
  case Nil
  then show ?case by simp
next
  case (Cons x xs)
  show ?case
  proof (cases "Q x")
    case True
    from Cons.prems have d: "distinct (map f xs)" and nx: "f x \<notin> f ` set xs"
      by simp_all
    have "f ` set (takeWhile Q xs @ tl (dropWhile Q xs)) \<subseteq> f ` set xs"
      by (rule image_mono) (rule remove_first_subset)
    with nx have "f x \<notin> f ` set (takeWhile Q xs @ tl (dropWhile Q xs))"
      by blast
    moreover have "distinct (map f (takeWhile Q xs @ tl (dropWhile Q xs)))"
      by (rule Cons.IH [OF d])
    ultimately have "distinct (map f (x # (takeWhile Q xs @ tl (dropWhile Q xs))))"
      by (simp only: list.map distinct.simps set_map) simp
    with True show ?thesis by simp
  next
    case False
    with Cons.prems show ?thesis by simp
  qed
qed

lemma distinct_one_match:
  "distinct (map f xs) \<Longrightarrow> list_ex (\<lambda>x. f x = n) xs \<Longrightarrow>
   length (filter (\<lambda>x. f x = n) xs) = 1"
proof (induction xs)
  case Nil
  then show ?case by simp
next
  case (Cons x xs)
  from Cons.prems(1) have d: "distinct (map f xs)" and nx: "f x \<notin> f ` set xs"
    by simp_all
  show ?case
  proof (cases "f x = n")
    case True
    with nx have "\<forall>y\<in>set xs. f y \<noteq> n" by blast
    then have "filter (\<lambda>x. f x = n) xs = []" by (simp add: filter_empty_conv)
    with True show ?thesis by simp
  next
    case False
    with Cons.prems(2) have "list_ex (\<lambda>x. f x = n) xs" by simp
    with False Cons.IH [OF d] show ?thesis by simp
  qed
qed

subsection \<open>The opt-out list\<close>

lemma optouts_some_iff:
  "optouts_some os n = (\<exists>e\<in>set os. normalizeNumber (entry_number e) = n)"
  by (simp add: optouts_some_def list_ex_iff)

lemma optouts_findIndex_gt: "(optouts_findIndex os n > - 1) = optouts_some os n"
  by (simp add: optouts_findIndex_def optouts_some_def findIndex_gt_iff)

lemma splice1_remove_first:
  "optouts_some os n \<Longrightarrow> splice1 os (nat (optouts_findIndex os n)) = remove_first os n"
  unfolding optouts_some_def optouts_findIndex_def remove_first_def
  by (rule splice1_findIndex)

lemma remove_first_not_blocked:
  "distinct_numbers os \<Longrightarrow> \<not> optouts_some (remove_first os n) n"
  unfolding distinct_numbers_def optouts_some_def remove_first_def
  by (rule remove_first_no_match)

lemma remove_first_distinct_numbers:
  "distinct_numbers os \<Longrightarrow> distinct_numbers (remove_first os n)"
  unfolding distinct_numbers_def remove_first_def
  by (rule remove_first_keeps_distinct)

lemma remove_first_length:
  "optouts_some os n \<Longrightarrow> Suc (length (remove_first os n)) = length os"
  unfolding optouts_some_def remove_first_def
  by (rule remove_first_shorter)

lemma remove_first_some:
  "optouts_some (remove_first os n) m \<Longrightarrow> optouts_some os m"
  using remove_first_subset [of "\<lambda>e. normalizeNumber (entry_number e) \<noteq> n" os]
  unfolding optouts_some_iff remove_first_def by blast

lemma entries_for_one:
  "distinct_numbers os \<Longrightarrow> optouts_some os n \<Longrightarrow> length (entries_for os n) = 1"
  unfolding distinct_numbers_def optouts_some_def entries_for_def
  by (rule distinct_one_match)

lemma entries_for_none: "\<not> optouts_some os n \<Longrightarrow> entries_for os n = []"
  by (simp add: optouts_some_iff entries_for_def filter_empty_conv)

lemma api_optout_eq:
  "api_optout now number st =
     ((200, JO [(''success'', JB True)]),
      if optouts_some (optouts st) (normalizeNumber number) then st
      else \<lparr>optouts = optouts st @
               [OObj \<lparr>o_number = JStr (normalizeNumber number), o_configId = ''manual'',
                      o_originalNumber = number\<rparr>],
             history = history st @
               [\<lparr>h_number = normalizeNumber number, h_action = ''optout'', h_timestamp = now,
                 h_receivedOn = JStr ''manual'', h_configId = JUndefined\<rparr>]\<rparr>)"
  by (simp add: api_optout_def Let_def)

lemma api_optin_eq:
  "api_optin now number st =
     ((200, JO [(''success'', JB True)]),
      if optouts_some (optouts st) (normalizeNumber number) then
        \<lparr>optouts = remove_first (optouts st) (normalizeNumber number),
         history = history st @
           [\<lparr>h_number = normalizeNumber number, h_action = ''optin'', h_timestamp = now,
             h_receivedOn = JStr ''manual'', h_configId = JUndefined\<rparr>]\<rparr>
      else st)"
  by (simp add: api_optin_def Let_def optouts_findIndex_gt splice1_remove_first)

lemma api_optout_blocked:
  "optouts_some (optouts (snd (api_optout now number st))) (normalizeNumber number)"
  by (simp add: api_optout_eq) (simp add: optouts_some_iff normalizeNumber_idem)

lemma api_optout_distinct_numbers:
  "distinct_numbers (optouts st) \<Longrightarrow> distinct_numbers (optouts (snd (api_optout now number st)))"
  by (simp add: api_optout_eq) (auto simp: distinct_numbers_def optouts_some_iff normalizeNumber_idem)

lemma api_optin_distinct_numbers:
  "distinct_numbers (optouts st) \<Longrightarrow> distinct_numbers (optouts (snd (api_optin now number st)))"
  by (simp add: api_optin_eq remove_first_distinct_numbers)

text \<open>
  Claim C3, as amended. For every raw string \<open>N\<close> and every state of the opt-out list:
  after \<open>POST /api/optout\<close> of \<open>N\<close>, \<open>GET /api/check/N\<close> reports \<open>blocked = true\<close>. When no two
  entries of the list have the same normalized number, then after \<open>POST /api/optin\<close> of
  \<open>N\<close> the check reports \<open>blocked = false\<close>, and after two opt-outs of \<open>N\<close> in succession
  exactly one entry of the list has the normalized number of \<open>N\<close>.
\<close>

theorem consent_round_trip:
  "api_check N (optouts (snd (api_optout now (JStr N) st)))
     = (200, JO [(''number'', JS (normalizeNumber (JStr N))), (''blocked'', JB True)])
   \<and> (distinct_numbers (optouts st) \<longrightarrow>
        api_check N (optouts (snd (api_optin now (JStr N) st)))
          = (200, JO [(''number'', JS (normalizeNumber (JStr N))), (''blocked'', JB False)])
        \<and> length (entries_for
             (optouts (snd (api_optout now' (JStr N) (snd (api_optout now (JStr N) st)))))
             (normalizeNumber (JStr N))) = 1)"
proof (intro conjI impI)
  let ?n = "normalizeNumber (JStr N)"
  let ?st1 = "snd (api_optout now (JStr N) st)"
  have blocked1: "optouts_some (optouts ?st1) ?n"
    by (rule api_optout_blocked)
  then show "api_check N (optouts ?st1) = (200, JO [(''number'', JS ?n), (''blocked'', JB True)])"
    by (simp add: api_check_def)
  {
    assume d: "distinct_numbers (optouts st)"
    have "\<not> optouts_some (optouts (snd (api_optin now (JStr N) st))) ?n"
    proof (cases "optouts_some (optouts st) ?n")
      case True
      with remove_first_not_blocked [OF d, of ?n] show ?thesis
        by (simp add: api_optin_eq)
    next
      case False
      then show ?thesis by (simp add: api_optin_eq)
    qed
    then show "api_check N (optouts (snd (api_optin now (JStr N) st)))
          = (200, JO [(''number'', JS ?n), (''blocked'', JB False)])"
      by (simp add: api_check_def)
    have d1: "distinct_numbers (optouts ?st1)"
      by (rule api_optout_distinct_numbers [OF d])
    have "snd (api_optout now' (JStr N) ?st1) = ?st1"
      using blocked1 by (simp add: api_optout_eq [of now' "JStr N" ?st1])
    then show "length (entries_for (optouts (snd (api_optout now' (JStr N) ?st1))) ?n) = 1"
      using entries_for_one [OF d1 blocked1] by simp
  }
qed

theorem consent_round_trip_witness:
  "distinct_numbers [OStr ''+44 7700 900000'']
   \<and> api_check ''447700900000''
        (optouts (snd (api_optin 5 (JStr ''447700900000'')
           \<lparr>optouts = [OStr ''+44 7700 900000''], history = []\<rparr>)))
      = (200, JO [(''number'', JS ''447700900000''), (''blocked'', JB False)])
   \<and> length (entries_for
        (optouts (snd (api_optout 6 (JStr ''447700900000'')
           (snd (api_optout 5 (JStr ''447700900000'')
              \<lparr>optouts = [OStr ''+44 7700 900000''], history = []\<rparr>)))))
        ''447700900000'') = 1"
proof -
  have d: "distinct_numbers [OStr ''+44 7700 900000'']"
    by (simp add: distinct_numbers_def)
  have n: "normalizeNumber (JStr ''447700900000'') = ''447700900000''"
    by (simp add: normalizeNumber_def is_digit_def)
  show ?thesis
    using d n consent_round_trip [of "''447700900000''" 5
        "\<lparr>optouts = [OStr ''+44 7700 900000''], history = []\<rparr>" 6]
    by simp
qed

theorem consent_round_trip_counterexample:
  "api_check ''447700900000''
     (optouts (snd (api_optin 5 (JStr ''447700900000'')
        \<lparr>optouts = [OStr ''447700900000'', OStr ''+44 7700 900000''], history = []\<rparr>)))
   = (200, JO [(''number'', JS ''447700900000''), (''blocked'', JB True)])"
  by (simp add: api_check_def api_optin_eq optouts_some_def remove_first_def
      normalizeNumber_def is_digit_def)

subsection \<open>The inbound webhook\<close>

lemma phrases_some_iff:
  "phrases_some (phrases_of s) T = (\<exists>P\<in>set (spec_phrases s). spec_matches T P)"
  by (simp add: phrases_some_def phrases_of_def spec_phrases_def spec_matches_def list_ex_iff)

lemma inbound_text_eq: "inbound_text data = toUpperCase (trim (message_text data))"
  by (simp add: inbound_text_def message_text_def)

lemma message_text_missing:
  "\<not> truthy (js_or (p_text data) (p_message data)) \<Longrightarrow> inbound_text data = []"
  by (simp add: inbound_text_def js_or_def toUpperCase_def trim_def)

lemma handleInboundSMS_discard:
  "\<not> truthy (inbound_from data) \<or> inbound_text data = [] \<Longrightarrow>
   handleInboundSMS configs now data st = ((200, JS ''OK''), st)"
  by (auto simp: handleInboundSMS_def Let_def)

lemma handleInboundSMS_no_config:
  "matchingConfig configs (normalizeNumber (p_to data)) = None \<Longrightarrow>
   handleInboundSMS configs now data st = ((200, JS ''OK''), st)"
  by (simp add: handleInboundSMS_def Let_def)

lemma handleInboundSMS_optout:
  assumes "truthy (inbound_from data)" and "inbound_text data \<noteq> []"
    and "matchingConfig configs (normalizeNumber (p_to data)) = Some mc"
    and "phrases_some (phrases_of (optoutPhrase mc)) (inbound_text data)"
  shows "handleInboundSMS configs now data st =
     ((200, JS ''OK''),
      \<lparr>optouts =
         (if optouts_some (optouts st) (normalizeNumber (inbound_from data)) then optouts st
          else optouts st @
            [OObj \<lparr>o_number = JStr (normalizeNumber (inbound_from data)), o_configId = c_id mc,
                   o_originalNumber = JUndefined\<rparr>]),
       history = history st @
         [\<lparr>h_number = normalizeNumber (inbound_from data), h_action = ''optout'',
           h_timestamp = now, h_receivedOn = p_to data, h_configId = JStr (c_id mc)\<rparr>]\<rparr>)"
  using assms by (simp add: handleInboundSMS_def Let_def)

lemma handleInboundSMS_optin:
  assumes "truthy (inbound_from data)" and "inbound_text data \<noteq> []"
    and "matchingConfig configs (normalizeNumber (p_to data)) = Some mc"
    and "\<not> phrases_some (phrases_of (optoutPhrase mc)) (inbound_text data)"
    and "phrases_some (phrases_of (optinPhrase mc)) (inbound_text data)"
  shows "handleInboundSMS configs now data st =
     ((200, JS ''OK''),
      \<lparr>optouts =
         (if optouts_some (optouts st) (normalizeNumber (inbound_from data))
          then remove_first (optouts st) (normalizeNumber (inbound_from data))
          else optouts st),
       history = history st @
         [\<lparr>h_number = normalizeNumber (inbound_from data), h_action = ''optin'',
           h_timestamp = now, h_receivedOn = p_to data, h_configId = JStr (c_id mc)\<rparr>]\<rparr>)"
  using assms
  by (simp add: handleInboundSMS_def Let_def optouts_findIndex_gt splice1_remove_first)

lemma handleInboundSMS_no_match:
  assumes "matchingConfig configs (normalizeNumber (p_to data)) = Some mc"
    and "\<not> phrases_some (phrases_of (optoutPhrase mc)) (inbound_text data)"
    and "\<not> phrases_some (phrases_of (optinPhrase mc)) (inbound_text data)"
  shows "handleInboundSMS configs now data st = ((200, JS ''OK''), st)"
  using assms by (simp add: handleInboundSMS_def Let_def)

lemma handleInboundSMS_response:
  "fst (handleInboundSMS configs now data st) = (200, JS ''OK'')"
  by (simp add: handleInboundSMS_def Let_def split: option.splits)

lemma append_distinct_numbers:
  "distinct_numbers os \<Longrightarrow> \<not> optouts_some os n \<Longrightarrow> normalizeNumber (JStr n) = n \<Longrightarrow>
   distinct_numbers (os @ [OObj \<lparr>o_number = JStr n, o_configId = c, o_originalNumber = v\<rparr>])"
  by (auto simp: distinct_numbers_def optouts_some_iff)

lemma handleInboundSMS_distinct_numbers:
  assumes "distinct_numbers (optouts st)"
  shows "distinct_numbers (optouts (snd (handleInboundSMS configs now data st)))"
proof (cases "\<not> truthy (inbound_from data) \<or> inbound_text data = []")
  case True
  with assms show ?thesis by (simp add: handleInboundSMS_discard)
next
  case present: False
  show ?thesis
  proof (cases "matchingConfig configs (normalizeNumber (p_to data))")
    case None
    with assms show ?thesis by (simp add: handleInboundSMS_no_config)
  next
    case (Some mc)
    let ?n = "normalizeNumber (inbound_from data)"
    have idem: "normalizeNumber (JStr ?n) = ?n" by (rule normalizeNumber_idem)
    show ?thesis
    proof (cases "phrases_some (phrases_of (optoutPhrase mc)) (inbound_text data)")
      case True
      from present have p: "truthy (inbound_from data)" "inbound_text data \<noteq> []" by simp_all
      show ?thesis
        using assms idem
        by (simp add: handleInboundSMS_optout [OF p Some True] append_distinct_numbers)
    next
      case out: False
      show ?thesis
      proof (cases "phrases_some (phrases_of (optinPhrase mc)) (inbound_text data)")
        case True
        from present have p: "truthy (inbound_from data)" "inbound_text data \<noteq> []" by simp_all
        show ?thesis
          using assms
          by (simp add: handleInboundSMS_optin [OF p Some out True] remove_first_distinct_numbers)
      next
        case False
        with assms show ?thesis by (simp add: handleInboundSMS_no_match [OF Some out False])
      qed
    qed
  qed
qed



text \<open>
  On a payload whose fields are strings or absent the webhook always answers with a
  bare 200; and when no configuration matches the normalized destination, or the text
  matches neither phrase list of the matching configuration, or the sender or the text
  is missing, the opt-out list and the history are left unchanged.
\<close>

theorem inbound_ignored_leaves_state:
  "fst (handleInboundSMS configs now data st) = (200, JS ''OK'')
   \<and> (matchingConfig configs (normalizeNumber (p_to data)) = None
       \<or> (\<exists>mc. matchingConfig configs (normalizeNumber (p_to data)) = Some mc
             \<and> \<not> phrases_some (phrases_of (optoutPhrase mc)) (inbound_text data)
             \<and> \<not> phrases_some (phrases_of (optinPhrase mc)) (inbound_text data))
       \<or> \<not> truthy (inbound_from data)
       \<or> \<not> truthy (js_or (p_text data) (p_message data))
       \<or> inbound_text data = []
       \<longrightarrow> snd (handleInboundSMS configs now data st) = st)"
proof (intro conjI impI)
  show "fst (handleInboundSMS configs now data st) = (200, JS ''OK'')"
    by (rule handleInboundSMS_response)
next
  assume "matchingConfig configs (normalizeNumber (p_to data)) = None
       \<or> (\<exists>mc. matchingConfig configs (normalizeNumber (p_to data)) = Some mc
             \<and> \<not> phrases_some (phrases_of (optoutPhrase mc)) (inbound_text data)
             \<and> \<not> phrases_some (phrases_of (optinPhrase mc)) (inbound_text data))
       \<or> \<not> truthy (inbound_from data)
       \<or> \<not> truthy (js_or (p_text data) (p_message data))
       \<or> inbound_text data = []"
  then show "snd (handleInboundSMS configs now data st) = st"
  proof (elim disjE exE conjE)
    assume "matchingConfig configs (normalizeNumber (p_to data)) = None"
    then show ?thesis by (simp add: handleInboundSMS_no_config)
  next
    fix mc
    assume "matchingConfig configs (normalizeNumber (p_to data)) = Some mc"
      and "\<not> phrases_some (phrases_of (optoutPhrase mc)) (inbound_text data)"
      and "\<not> phrases_some (phrases_of (optinPhrase mc)) (inbound_text data)"
    then show ?thesis by (simp add: handleInboundSMS_no_match)
  next
    assume "\<not> truthy (inbound_from data)"
    then show ?thesis by (simp add: handleInboundSMS_discard)
  next
    assume "\<not> truthy (js_or (p_text data) (p_message data))"
    then have "inbound_text data = []" by (rule message_text_missing)
    then show ?thesis by (simp add: handleInboundSMS_discard)
  next
    assume "inbound_text data = []"
    then show ?thesis by (simp add: handleInboundSMS_discard)
  qed
qed

theorem inbound_ignored_leaves_state_witness:
  "matchingConfig
     [\<lparr>c_id = ''1'', optoutNumber = ''447418317717'', optoutPhrase = ''STOP'',
       optinPhrase = ''START''\<rparr>] (normalizeNumber (JStr ''15550001111'')) = None
   \<and> handleInboundSMS
        [\<lparr>c_id = ''1'', optoutNumber = ''447418317717'', optoutPhrase = ''STOP'',
          optinPhrase = ''START''\<rparr>] 5
        \<lparr>p_msisdn = JStr ''447700900000'', p_from = JUndefined, p_to = JStr ''15550001111'',
         p_text = JStr ''STOP'', p_message = JUndefined\<rparr>
        \<lparr>optouts = [OStr ''447700900123''], history = []\<rparr>
      = ((200, JS ''OK''), \<lparr>optouts = [OStr ''447700900123''], history = []\<rparr>)
   \<and> \<not> truthy (inbound_from
        \<lparr>p_msisdn = JUndefined, p_from = JStr [], p_to = JStr ''447418317717'',
         p_text = JStr ''STOP'', p_message = JUndefined\<rparr>)
   \<and> handleInboundSMS
        [\<lparr>c_id = ''1'', optoutNumber = ''447418317717'', optoutPhrase = ''STOP'',
          optinPhrase = ''START''\<rparr>] 5
        \<lparr>p_msisdn = JUndefined, p_from = JStr [], p_to = JStr ''447418317717'',
         p_text = JStr ''STOP'', p_message = JUndefined\<rparr>
        \<lparr>optouts = [OStr ''447700900123''], history = []\<rparr>
      = ((200, JS ''OK''), \<lparr>optouts = [OStr ''447700900123''], history = []\<rparr>)"
proof -
  let ?cs = "[\<lparr>c_id = ''1'', optoutNumber = ''447418317717'', optoutPhrase = ''STOP'',
                optinPhrase = ''START''\<rparr>]"
  let ?d1 = "\<lparr>p_msisdn = JStr ''447700900000'', p_from = JUndefined,
               p_to = JStr ''15550001111'', p_text = JStr ''STOP'', p_message = JUndefined\<rparr>"
  let ?d2 = "\<lparr>p_msisdn = JUndefined, p_from = JStr [], p_to = JStr ''447418317717'',
               p_text = JStr ''STOP'', p_message = JUndefined\<rparr>"
  let ?st = "\<lparr>optouts = [OStr ''447700900123''], history = []\<rparr>"
  have h1: "matchingConfig ?cs (normalizeNumber (JStr ''15550001111'')) = None" by code_simp
  have h2: "\<not> truthy (inbound_from ?d2)" by code_simp
  from h1 have "snd (handleInboundSMS ?cs 5 ?d1 ?st) = ?st"
    using inbound_ignored_leaves_state [of ?cs 5 ?d1 ?st] by simp
  moreover have "fst (handleInboundSMS ?cs 5 ?d1 ?st) = (200, JS ''OK'')"
    using inbound_ignored_leaves_state [of ?cs 5 ?d1 ?st] by simp
  moreover from h2 have "snd (handleInboundSMS ?cs 5 ?d2 ?st) = ?st"
    using inbound_ignored_leaves_state [of ?cs 5 ?d2 ?st] by simp
  moreover have "fst (handleInboundSMS ?cs 5 ?d2 ?st) = (200, JS ''OK'')"
    using inbound_ignored_leaves_state [of ?cs 5 ?d2 ?st] by simp
  ultimately show ?thesis
    using h1 h2 by (simp add: prod_eq_iff)
qed

text \<open>
  Claim C2, as amended. For every inbound message with a sender and a text that is not
  blank, whose normalized destination matches a configuration (the first such one), the
  handler acts on the specification's classification of the message text against that
  configuration: on \<open>OPTOUT\<close> it adds the sender to the opt-out list unless already there
  and appends an \<open>optout\<close> history entry, on \<open>OPTIN\<close> it removes the sender's first entry
  and appends an \<open>optin\<close> history entry, on \<open>NONE\<close> it changes nothing. A phrase of both
  lists that matches gives \<open>OPTOUT\<close>.
\<close>

theorem inbound_classification:
  assumes "truthy (inbound_from data)" and "inbound_text data \<noteq> []"
    and "matchingConfig configs (normalizeNumber (p_to data)) = Some mc"
  shows "snd (handleInboundSMS configs now data st) =
     (case spec_classify mc (message_text data) of
        OPTOUT \<Rightarrow>
          \<lparr>optouts =
             (if optouts_some (optouts st) (normalizeNumber (inbound_from data)) then optouts st
              else optouts st @
                [OObj \<lparr>o_number = JStr (normalizeNumber (inbound_from data)),
                       o_configId = c_id mc, o_originalNumber = JUndefined\<rparr>]),
           history = history st @
             [\<lparr>h_number = normalizeNumber (inbound_from data), h_action = ''optout'',
               h_timestamp = now, h_receivedOn = p_to data, h_configId = JStr (c_id mc)\<rparr>]\<rparr>
      | OPTIN \<Rightarrow>
          \<lparr>optouts =
             (if optouts_some (optouts st) (normalizeNumber (inbound_from data))
              then remove_first (optouts st) (normalizeNumber (inbound_from data))
              else optouts st),
           history = history st @
             [\<lparr>h_number = normalizeNumber (inbound_from data), h_action = ''optin'',
               h_timestamp = now, h_receivedOn = p_to data, h_configId = JStr (c_id mc)\<rparr>]\<rparr>
      | NONE \<Rightarrow> st)
     \<and> ((\<exists>P \<in> set (spec_phrases (optoutPhrase mc)) \<inter> set (spec_phrases (optinPhrase mc)).
            spec_matches (toUpperCase (trim (message_text data))) P)
          \<longrightarrow> spec_classify mc (message_text data) = OPTOUT)"
proof (intro conjI impI)
  let ?T = "inbound_text data"
  have T: "toUpperCase (trim (message_text data)) = ?T"
    by (simp add: inbound_text_eq)
  show "snd (handleInboundSMS configs now data st) =
     (case spec_classify mc (message_text data) of
        OPTOUT \<Rightarrow>
          \<lparr>optouts =
             (if optouts_some (optouts st) (normalizeNumber (inbound_from data)) then optouts st
              else optouts st @
                [OObj \<lparr>o_number = JStr (normalizeNumber (inbound_from data)),
                       o_configId = c_id mc, o_originalNumber = JUndefined\<rparr>]),
           history = history st @
             [\<lparr>h_number = normalizeNumber (inbound_from data), h_action = ''optout'',
               h_timestamp = now, h_receivedOn = p_to data, h_configId = JStr (c_id mc)\<rparr>]\<rparr>
      | OPTIN \<Rightarrow>
          \<lparr>optouts =
             (if optouts_some (optouts st) (normalizeNumber (inbound_from data))
              then remove_first (optouts st) (normalizeNumber (inbound_from data))
              else optouts st),
           history = history st @
             [\<lparr>h_number = normalizeNumber (inbound_from data), h_action = ''optin'',
               h_timestamp = now, h_receivedOn = p_to data, h_configId = JStr (c_id mc)\<rparr>]\<rparr>
      | NONE \<Rightarrow> st)"
  proof (cases "phrases_some (phrases_of (optoutPhrase mc)) ?T")
    case True
    then have "spec_classify mc (message_text data) = OPTOUT"
      by (simp add: spec_classify_def T phrases_some_iff)
    then show ?thesis
      by (simp add: handleInboundSMS_optout [OF assms True])
  next
    case out: False
    show ?thesis
    proof (cases "phrases_some (phrases_of (optinPhrase mc)) ?T")
      case True
      with out have "spec_classify mc (message_text data) = OPTIN"
        by (simp add: spec_classify_def T phrases_some_iff)
      then show ?thesis
        by (simp add: handleInboundSMS_optin [OF assms out True])
    next
      case False
      with out have "spec_classify mc (message_text data) = NONE"
        by (simp add: spec_classify_def T phrases_some_iff)
      then show ?thesis
        by (simp add: handleInboundSMS_no_match [OF assms(3) out False])
    qed
  qed
next
  assume "\<exists>P \<in> set (spec_phrases (optoutPhrase mc)) \<inter> set (spec_phrases (optinPhrase mc)).
            spec_matches (toUpperCase (trim (message_text data))) P"
  then have "\<exists>P \<in> set (spec_phrases (optoutPhrase mc)).
            spec_matches (toUpperCase (trim (message_text data))) P"
    by blast
  then show "spec_classify mc (message_text data) = OPTOUT"
    by (simp add: spec_classify_def)
qed

theorem inbound_classification_witness:
  "spec_classify
     \<lparr>c_id = ''1'', optoutNumber = ''447418317717'', optoutPhrase = ''STOP, go'',
      optinPhrase = ''START,Go''\<rparr> ''  Stop please '' = OPTOUT
   \<and> spec_classify
     \<lparr>c_id = ''1'', optoutNumber = ''447418317717'', optoutPhrase = ''STOP, go'',
      optinPhrase = ''START,Go''\<rparr> ''go'' = OPTOUT
   \<and> snd (handleInboundSMS
        [\<lparr>c_id = ''1'', optoutNumber = ''447418317717'', optoutPhrase = ''STOP, go'',
          optinPhrase = ''START,Go''\<rparr>] 5
        \<lparr>p_msisdn = JStr ''447700900000'', p_from = JUndefined, p_to = JStr ''447418317717'',
         p_text = JStr ''  Stop please '', p_message = JUndefined\<rparr>
        \<lparr>optouts = [], history = []\<rparr>)
      = \<lparr>optouts = [OObj \<lparr>o_number = JStr ''447700900000'', o_configId = ''1'',
                              o_originalNumber = JUndefined\<rparr>],
         history = [\<lparr>h_number = ''447700900000'', h_action = ''optout'', h_timestamp = 5,
                     h_receivedOn = JStr ''447418317717'', h_configId = JStr ''1''\<rparr>]\<rparr>"
proof -
  let ?mc = "\<lparr>c_id = ''1'', optoutNumber = ''447418317717'', optoutPhrase = ''STOP, go'',
               optinPhrase = ''START,Go''\<rparr>"
  let ?data = "\<lparr>p_msisdn = JStr ''447700900000'', p_from = JUndefined,
                 p_to = JStr ''447418317717'', p_text = JStr ''  Stop please '',
                 p_message = JUndefined\<rparr>"
  let ?go = "\<lparr>p_msisdn = JStr ''447700900000'', p_from = JUndefined,
                 p_to = JStr ''447418317717'', p_text = JStr ''go'',
                 p_message = JUndefined\<rparr>"
  have h1: "truthy (inbound_from ?data)" by code_simp
  have h2: "inbound_text ?data \<noteq> []" by code_simp
  have h3: "matchingConfig [?mc] (normalizeNumber (p_to ?data)) = Some ?mc" by code_simp
  have g1: "truthy (inbound_from ?go)" by code_simp
  have g2: "inbound_text ?go \<noteq> []" by code_simp
  have g3: "matchingConfig [?mc] (normalizeNumber (p_to ?go)) = Some ?mc" by code_simp
  have both: "\<exists>P \<in> set (spec_phrases (optoutPhrase ?mc)) \<inter> set (spec_phrases (optinPhrase ?mc)).
            spec_matches (toUpperCase (trim (message_text ?go))) P"
    by code_simp
  have m: "message_text ?data = ''  Stop please ''" "message_text ?go = ''go''" by code_simp+
  have c: "spec_classify ?mc ''  Stop please '' = OPTOUT" by code_simp
  have n: "normalizeNumber (inbound_from ?data) = ''447700900000''" by code_simp
  have a: "\<not> optouts_some [] ''447700900000''" by code_simp
  from inbound_classification [OF g1 g2 g3, of 5 "\<lparr>optouts = [], history = []\<rparr>"] both m
  have "spec_classify ?mc ''go'' = OPTOUT" by simp
  moreover from inbound_classification [OF h1 h2 h3, of 5 "\<lparr>optouts = [], history = []\<rparr>"] m c n a
  have "snd (handleInboundSMS [?mc] 5 ?data \<lparr>optouts = [], history = []\<rparr>)
      = \<lparr>optouts = [OObj \<lparr>o_number = JStr ''447700900000'', o_configId = ''1'',
                              o_originalNumber = JUndefined\<rparr>],
         history = [\<lparr>h_number = ''447700900000'', h_action = ''optout'', h_timestamp = 5,
                     h_receivedOn = JStr ''447418317717'', h_configId = JStr ''1''\<rparr>]\<rparr>"
    by simp
  ultimately show ?thesis using c by simp
qed

theorem inbound_classification_counterexample:
  "truthy (inbound_from
      \<lparr>p_msisdn = JStr ''447700900000'', p_from = JUndefined, p_to = JStr ''447418317717'',
       p_text = JStr ''  '', p_message = JUndefined\<rparr>)
   \<and> matchingConfig
        [\<lparr>c_id = ''1'', optoutNumber = ''447418317717'', optoutPhrase = ''STOP,'',
          optinPhrase = ''START''\<rparr>] (normalizeNumber (JStr ''447418317717''))
      = Some \<lparr>c_id = ''1'', optoutNumber = ''447418317717'', optoutPhrase = ''STOP,'',
              optinPhrase = ''START''\<rparr>
   \<and> spec_classify
        \<lparr>c_id = ''1'', optoutNumber = ''447418317717'', optoutPhrase = ''STOP,'',
         optinPhrase = ''START''\<rparr> ''  '' = OPTOUT
   \<and> handleInboundSMS
        [\<lparr>c_id = ''1'', optoutNumber = ''447418317717'', optoutPhrase = ''STOP,'',
          optinPhrase = ''START''\<rparr>] 5
        \<lparr>p_msisdn = JStr ''447700900000'', p_from = JUndefined, p_to = JStr ''447418317717'',
         p_text = JStr ''  '', p_message = JUndefined\<rparr>
        \<lparr>optouts = [], history = []\<rparr>
      = ((200, JS ''OK''), \<lparr>optouts = [], history = []\<rparr>)"
  by code_simp

subsection \<open>The history log\<close>

lemma filter_filter_conj: "filter P (filter Q xs) = filter (\<lambda>x. Q x \<and> P x) xs"
  by (induction xs) simp_all

lemma sorted_descending:
  "sorted_wrt (\<lambda>a b. h_timestamp a \<ge> h_timestamp b) (sort_key (\<lambda>item. - h_timestamp item) xs)"
proof -
  have "sorted (map (\<lambda>item. - h_timestamp item) (sort_key (\<lambda>item. - h_timestamp item) xs))"
    by (rule sorted_sort_key)
  then show ?thesis
    by (simp add: sorted_map)
qed

lemma api_stats_eq:
  "api_stats now hist =
     (200, JO [(''optins'', JN (length (filter (\<lambda>item. h_action item = ''optin''
                    \<and> now - 24 * 60 * 60 * 1000 \<le> h_timestamp item) hist))),
               (''optouts'', JN (length (filter (\<lambda>item. h_action item = ''optout''
                    \<and> now - 24 * 60 * 60 * 1000 \<le> h_timestamp item) hist)))])"
  by (simp add: api_stats_def Let_def filter_filter_conj conj_commute)

text \<open>
  Claim C7, as amended. For every history list and every time \<open>now\<close>, \<open>GET /api/stats\<close>
  counts, for each action, exactly the history entries with that action whose time stamp
  is at or after \<open>now - 24h\<close>. When no entry is stamped later than \<open>now\<close>, these are exactly
  the entries with that action in the window \<open>[now - 24h, now]\<close>.
\<close>

theorem stats_trailing_window:
  "api_stats now hist =
     (200, JO [(''optins'', JN (length (filter (\<lambda>item. h_action item = ''optin''
                    \<and> now - 24 * 60 * 60 * 1000 \<le> h_timestamp item) hist))),
               (''optouts'', JN (length (filter (\<lambda>item. h_action item = ''optout''
                    \<and> now - 24 * 60 * 60 * 1000 \<le> h_timestamp item) hist)))])
   \<and> ((\<forall>item\<in>set hist. h_timestamp item \<le> now) \<longrightarrow>
        api_stats now hist =
          (200, JO [(''optins'', JN (length (filter (\<lambda>item. h_action item = ''optin''
                         \<and> in_window now item) hist))),
                    (''optouts'', JN (length (filter (\<lambda>item. h_action item = ''optout''
                         \<and> in_window now item) hist)))]))"
proof (intro conjI impI)
  show "api_stats now hist =
     (200, JO [(''optins'', JN (length (filter (\<lambda>item. h_action item = ''optin''
                    \<and> now - 24 * 60 * 60 * 1000 \<le> h_timestamp item) hist))),
               (''optouts'', JN (length (filter (\<lambda>item. h_action item = ''optout''
                    \<and> now - 24 * 60 * 60 * 1000 \<le> h_timestamp item) hist)))])"
    by (rule api_stats_eq)
next
  assume past: "\<forall>item\<in>set hist. h_timestamp item \<le> now"
  have "filter (\<lambda>item. h_action item = a \<and> now - 24 * 60 * 60 * 1000 \<le> h_timestamp item) hist
      = filter (\<lambda>item. h_action item = a \<and> in_window now item) hist" for a
    by (rule filter_cong) (use past in \<open>auto simp: in_window_def\<close>)
  then show "api_stats now hist =
          (200, JO [(''optins'', JN (length (filter (\<lambda>item. h_action item = ''optin''
                         \<and> in_window now item) hist))),
                    (''optouts'', JN (length (filter (\<lambda>item. h_action item = ''optout''
                         \<and> in_window now item) hist)))])"
    by (simp add: api_stats_eq)
qed

theorem stats_trailing_window_witness:
  "h_timestamp \<lparr>h_number = ''447700900000'', h_action = ''optout'',
      h_timestamp = 1699999000000, h_receivedOn = JStr ''447418317717'',
      h_configId = JStr ''1''\<rparr> \<le> 1700000000000
   \<and> h_timestamp \<lparr>h_number = ''447700900000'', h_action = ''optout'',
      h_timestamp = 1699900000000, h_receivedOn = JStr ''447418317717'',
      h_configId = JStr ''1''\<rparr> \<le> 1700000000000
   \<and> api_stats 1700000000000
        [\<lparr>h_number = ''447700900000'', h_action = ''optout'', h_timestamp = 1699900000000,
          h_receivedOn = JStr ''447418317717'', h_configId = JStr ''1''\<rparr>,
         \<lparr>h_number = ''447700900000'', h_action = ''optout'', h_timestamp = 1699999000000,
          h_receivedOn = JStr ''447418317717'', h_configId = JStr ''1''\<rparr>]
      = (200, JO [(''optins'', JN 0), (''optouts'', JN 1)])"
proof -
  let ?old = "\<lparr>h_number = ''447700900000'', h_action = ''optout'',
      h_timestamp = 1699900000000, h_receivedOn = JStr ''447418317717'',
      h_configId = JStr ''1''\<rparr>"
  let ?new = "\<lparr>h_number = ''447700900000'', h_action = ''optout'',
      h_timestamp = 1699999000000, h_receivedOn = JStr ''447418317717'',
      h_configId = JStr ''1''\<rparr>"
  have past: "\<forall>item\<in>set [?old, ?new]. h_timestamp item \<le> 1700000000000"
    by simp
  have ins: "length (filter (\<lambda>item. h_action item = ''optin''
                \<and> in_window 1700000000000 item) [?old, ?new]) = 0"
    by (simp add: in_window_def)
  have outs: "length (filter (\<lambda>item. h_action item = ''optout''
                \<and> in_window 1700000000000 item) [?old, ?new]) = 1"
    by (simp add: in_window_def)
  from stats_trailing_window [of 1700000000000 "[?old, ?new]"] past
  have "api_stats 1700000000000 [?old, ?new] =
          (200, JO [(''optins'', JN (length (filter (\<lambda>item. h_action item = ''optin''
                         \<and> in_window 1700000000000 item) [?old, ?new]))),
                    (''optouts'', JN (length (filter (\<lambda>item. h_action item = ''optout''
                         \<and> in_window 1700000000000 item) [?old, ?new])))])"
    by blast
  then have "api_stats 1700000000000 [?old, ?new]
      = (200, JO [(''optins'', JN 0), (''optouts'', JN 1)])"
    unfolding ins outs .
  then show ?thesis by simp
qed

theorem stats_trailing_window_counterexample:
  "\<not> in_window 1700000000000
        \<lparr>h_number = ''447700900000'', h_action = ''optin'', h_timestamp = 1700000060000,
         h_receivedOn = JStr ''manual'', h_configId = JUndefined\<rparr>
   \<and> api_stats 1700000000000
        [\<lparr>h_number = ''447700900000'', h_action = ''optin'', h_timestamp = 1700000060000,
          h_receivedOn = JStr ''manual'', h_configId = JUndefined\<rparr>]
      = (200, JO [(''optins'', JN 1), (''optouts'', JN 0)])"
  by (simp add: in_window_def api_stats_def)

subsection \<open>The history query\<close>

lemma api_history_eq:
  "api_history z other q hist =
     sort_key (\<lambda>item. - h_timestamp item)
       (filter (\<lambda>item.
            (truthy (q_startDate q) \<longrightarrow>
               date_ge (Some (h_timestamp item))
                 (setHours z 0 0 0 0 (newDate other (str_of (q_startDate q)))))
            \<and> (truthy (q_endDate q) \<longrightarrow>
               date_le (Some (h_timestamp item))
                 (setHours z 23 59 59 999 (newDate other (str_of (q_endDate q)))))
            \<and> (truthy (q_action q) \<and> q_action q \<noteq> JStr ''all''
                 \<longrightarrow> JStr (h_action item) = q_action q)) hist)"
proof -
  let ?S = "\<lambda>item. truthy (q_startDate q) \<longrightarrow>
               date_ge (Some (h_timestamp item))
                 (setHours z 0 0 0 0 (newDate other (str_of (q_startDate q))))"
  let ?E = "\<lambda>item. truthy (q_endDate q) \<longrightarrow>
               date_le (Some (h_timestamp item))
                 (setHours z 23 59 59 999 (newDate other (str_of (q_endDate q))))"
  let ?A = "\<lambda>item. truthy (q_action q) \<and> q_action q \<noteq> JStr ''all''
                \<longrightarrow> JStr (h_action item) = q_action q"
  define h1 where "h1 =
    (if truthy (q_startDate q) then
       filter (\<lambda>item. date_ge (Some (h_timestamp item))
          (setHours z 0 0 0 0 (newDate other (str_of (q_startDate q))))) hist
     else hist)"
  define h2 where "h2 =
    (if truthy (q_endDate q) then
       filter (\<lambda>item. date_le (Some (h_timestamp item))
          (setHours z 23 59 59 999 (newDate other (str_of (q_endDate q))))) h1
     else h1)"
  define h3 where "h3 =
    (if truthy (q_action q) \<and> q_action q \<noteq> JStr ''all'' then
       filter (\<lambda>item. JStr (h_action item) = q_action q) h2
     else h2)"
  have unfold: "api_history z other q hist = sort_key (\<lambda>item. - h_timestamp item) h3"
    by (simp add: api_history_def Let_def h1_def h2_def h3_def)
  have h1: "h1 = filter ?S hist"
    by (cases "truthy (q_startDate q)") (simp_all add: h1_def)
  have h2: "h2 = filter ?E h1"
    by (cases "truthy (q_endDate q)") (simp_all add: h2_def)
  have h3: "h3 = filter ?A h2"
  proof (cases "truthy (q_action q) \<and> q_action q \<noteq> JStr ''all''")
    case True
    then show ?thesis by (simp add: h3_def)
  next
    case False
    then have "filter ?A h2 = h2" by auto
    with False show ?thesis by (simp only: h3_def if_False)
  qed
  have "h3 = filter ?A (filter ?E (filter ?S hist))"
    by (simp only: h3 h2 h1)
  also have "\<dots> = filter (\<lambda>item. ?S item \<and> ?E item \<and> ?A item) hist"
    by (simp only: filter_filter_conj conj_assoc)
  finally show ?thesis by (simp only: unfold)
qed

lemma api_history_sorted:
  "sorted_wrt (\<lambda>a b. h_timestamp a \<ge> h_timestamp b) (api_history z other q hist)"
  by (simp only: api_history_eq sorted_descending)

text \<open>In a zone of constant offset the day of an instant is found by division.\<close>

lemma setHours_const_zone:
  "setHours (const_zone tza) h m s ms (Some t) =
     Some ((t + tza) div msPerDay * msPerDay + (((h * 60 + m) * 60 + s) * 1000 + ms) - tza)"
  by (simp add: setHours_def const_zone_def LocalTime_def UTC_def)

lemma day_of_east:
  assumes "0 \<le> tza" and "tza < msPerDay"
  shows "(D * msPerDay + tza) div msPerDay = D"
proof -
  have "msPerDay \<noteq> 0" by (simp add: msPerDay_def)
  then have "(D * msPerDay + tza) div msPerDay = D + tza div msPerDay"
    by (simp add: add.commute)
  moreover have "tza div msPerDay = 0"
    using assms by (simp add: div_pos_pos_trivial)
  ultimately show ?thesis by simp
qed

lemma day_of_west:
  assumes "- msPerDay \<le> tza" and "tza < 0"
  shows "(D * msPerDay + tza) div msPerDay = D - 1"
proof -
  have eq: "D * msPerDay + tza = (D - 1) * msPerDay + (tza + msPerDay)"
    by (simp add: algebra_simps)
  have "((D - 1) * msPerDay + (tza + msPerDay)) div msPerDay = D - 1"
    using assms by (intro day_of_east) simp_all
  then show ?thesis by (simp only: eq)
qed

text \<open>
  A date-only string that names day \<open>D\<close> parses to \<open>D * msPerDay\<close>. At a constant offset at
  or east of UTC, \<open>setHours\<close> takes it to the first and last millisecond of day \<open>D\<close> on the
  local clock; at a constant offset west of UTC, to those of the day before.
\<close>

lemma named_day_east:
  assumes "0 \<le> tza" and "tza < msPerDay"
  shows "setHours (const_zone tza) 0 0 0 0 (Some (D * msPerDay)) = Some (day_start tza D)"
    and "setHours (const_zone tza) 23 59 59 999 (Some (D * msPerDay)) = Some (day_end tza D)"
  using day_of_east [OF assms, of D]
  by (simp_all add: setHours_const_zone day_start_def day_end_def) (simp add: msPerDay_def)

lemma named_day_west:
  assumes "- msPerDay \<le> tza" and "tza < 0"
  shows "setHours (const_zone tza) 0 0 0 0 (Some (D * msPerDay)) = Some (day_start tza (D - 1))"
    and "setHours (const_zone tza) 23 59 59 999 (Some (D * msPerDay))
           = Some (day_end tza (D - 1))"
  using day_of_west [OF assms, of D]
  by (simp_all add: setHours_const_zone day_start_def day_end_def) (simp add: msPerDay_def)

lemma newDate_iso: "iso_date_only s = Some t \<Longrightarrow> newDate other s = Some t"
  by (simp add: newDate_def)

lemma iso_date_only_nonempty: "iso_date_only s = Some t \<Longrightarrow> s \<noteq> []"
  by (auto simp: iso_date_only_def)

lemma history_window_east:
  assumes "iso_date_only s = Some (D * msPerDay)" and "0 \<le> tza" and "tza < msPerDay"
  shows "api_history (const_zone tza) other
           \<lparr>q_startDate = JStr s, q_endDate = JStr s, q_action = JUndefined\<rparr> hist =
         sort_key (\<lambda>item. - h_timestamp item)
           (filter (\<lambda>item. day_start tza D \<le> h_timestamp item
                         \<and> h_timestamp item \<le> day_end tza D) hist)"
  using iso_date_only_nonempty [OF assms(1)]
  by (simp add: api_history_eq newDate_iso [OF assms(1)] named_day_east [OF assms(2,3)]
      date_ge_def date_le_def)

text \<open>
  Claim C8. The claim fails on a server whose clock is west of UTC. A date given as
  \<open>YYYY-MM-DD\<close> parses to 00:00 UTC of the day it names, which is an hour of the day before
  on that clock, and \<open>setHours\<close> then takes the first and the last millisecond of the day
  before: for a clock at a constant offset of up to 24 hours west of UTC, the query for
  the single day \<open>D\<close> returns the entries of the local day \<open>D - 1\<close>, sorted by descending
  time stamp, and not the entries of the day \<open>D\<close>.
\<close>

theorem history_query_west_of_utc:
  assumes "iso_date_only s = Some (D * msPerDay)" and "- msPerDay \<le> tza" and "tza < 0"
  shows "api_history (const_zone tza) other
           \<lparr>q_startDate = JStr s, q_endDate = JStr s, q_action = JUndefined\<rparr> hist =
         sort_key (\<lambda>item. - h_timestamp item)
           (filter (\<lambda>item. day_start tza (D - 1) \<le> h_timestamp item
                         \<and> h_timestamp item \<le> day_end tza (D - 1)) hist)"
  using iso_date_only_nonempty [OF assms(1)]
  by (simp add: api_history_eq newDate_iso [OF assms(1)] named_day_west [OF assms(2,3)]
      date_ge_def date_le_def)

text \<open>
  The query \<open>startDate=2024-01-15&endDate=2024-01-15\<close> over a history with one entry stamped
  2024-01-14T15:00:00.000Z and one stamped 2024-01-15T15:00:00.000Z. On a server five
  hours west of UTC the handler returns the entry of 14 January and not the entry of
  15 January, which is 10:00 on 15 January on that clock. On a server at UTC the same
  query returns the entry of 15 January.
\<close>

theorem history_query_west_of_utc_witness:
  "iso_date_only ''2024-01-15'' = Some (19737 * msPerDay)
   \<and> - msPerDay \<le> - 18000000 \<and> (- 18000000 :: int) < 0
   \<and> api_history (const_zone (- 18000000)) (\<lambda>s. None)
     \<lparr>q_startDate = JStr ''2024-01-15'', q_endDate = JStr ''2024-01-15'',
      q_action = JUndefined\<rparr>
     [\<lparr>h_number = ''447700900001'', h_action = ''optout'', h_timestamp = 1705244400000,
       h_receivedOn = JStr ''manual'', h_configId = JUndefined\<rparr>,
      \<lparr>h_number = ''447700900002'', h_action = ''optout'', h_timestamp = 1705330800000,
       h_receivedOn = JStr ''manual'', h_configId = JUndefined\<rparr>]
   = [\<lparr>h_number = ''447700900001'', h_action = ''optout'', h_timestamp = 1705244400000,
        h_receivedOn = JStr ''manual'', h_configId = JUndefined\<rparr>]
   \<and> api_history (const_zone 0) (\<lambda>s. None)
     \<lparr>q_startDate = JStr ''2024-01-15'', q_endDate = JStr ''2024-01-15'',
      q_action = JUndefined\<rparr>
     [\<lparr>h_number = ''447700900001'', h_action = ''optout'', h_timestamp = 1705244400000,
       h_receivedOn = JStr ''manual'', h_configId = JUndefined\<rparr>,
      \<lparr>h_number = ''447700900002'', h_action = ''optout'', h_timestamp = 1705330800000,
       h_receivedOn = JStr ''manual'', h_configId = JUndefined\<rparr>]
   = [\<lparr>h_number = ''447700900002'', h_action = ''optout'', h_timestamp = 1705330800000,
        h_receivedOn = JStr ''manual'', h_configId = JUndefined\<rparr>]"
proof -
  have iso: "iso_date_only ''2024-01-15'' = Some (19737 * msPerDay)"
    by code_simp
  have west: "- msPerDay \<le> - 18000000" "(- 18000000 :: int) < 0"
    by (simp_all add: msPerDay_def)
  have east: "(0 :: int) \<le> 0" "0 < msPerDay"
    by (simp_all add: msPerDay_def)
  have a: "api_history (const_zone (- 18000000)) (\<lambda>s. None)
     \<lparr>q_startDate = JStr ''2024-01-15'', q_endDate = JStr ''2024-01-15'',
      q_action = JUndefined\<rparr>
     [\<lparr>h_number = ''447700900001'', h_action = ''optout'', h_timestamp = 1705244400000,
       h_receivedOn = JStr ''manual'', h_configId = JUndefined\<rparr>,
      \<lparr>h_number = ''447700900002'', h_action = ''optout'', h_timestamp = 1705330800000,
       h_receivedOn = JStr ''manual'', h_configId = JUndefined\<rparr>]
   = [\<lparr>h_number = ''447700900001'', h_action = ''optout'', h_timestamp = 1705244400000,
        h_receivedOn = JStr ''manual'', h_configId = JUndefined\<rparr>]"
    unfolding history_query_west_of_utc [OF iso west]
    by (simp add: day_start_def day_end_def msPerDay_def)
  have b: "api_history (const_zone 0) (\<lambda>s. None)
     \<lparr>q_startDate = JStr ''2024-01-15'', q_endDate = JStr ''2024-01-15'',
      q_action = JUndefined\<rparr>
     [\<lparr>h_number = ''447700900001'', h_action = ''optout'', h_timestamp = 1705244400000,
       h_receivedOn = JStr ''manual'', h_configId = JUndefined\<rparr>,
      \<lparr>h_number = ''447700900002'', h_action = ''optout'', h_timestamp = 1705330800000,
       h_receivedOn = JStr ''manual'', h_configId = JUndefined\<rparr>]
   = [\<lparr>h_number = ''447700900002'', h_action = ''optout'', h_timestamp = 1705330800000,
        h_receivedOn = JStr ''manual'', h_configId = JUndefined\<rparr>]"
    unfolding history_window_east [OF iso east]
    by (simp add: day_start_def day_end_def msPerDay_def)
  from iso west a b show ?thesis by (intro conjI)
qed

subsection \<open>Bulk opt-in\<close>

lemma optin_bulk_one_eq:
  "optin_bulk_one ts number (os, hs, removed, notFound) =
     (if normalizeNumber number = [] then (os, hs, removed, notFound)
      else if optouts_some os (normalizeNumber number) then
        (remove_first os (normalizeNumber number),
         hs @ [\<lparr>h_number = normalizeNumber number, h_action = ''optin'', h_timestamp = ts,
                 h_receivedOn = JStr ''api'', h_configId = JUndefined\<rparr>],
         removed @ [normalizeNumber number], notFound)
      else (os, hs, removed, notFound @ [normalizeNumber number]))"
  by (simp add: optin_bulk_one_def Let_def optouts_findIndex_gt splice1_remove_first)
lemma spec_optin_bulk_Cons:
  "spec_optin_bulk ts (x # xs) (os, hs, removed, notFound) =
     (if normalizeNumber x = [] then spec_optin_bulk ts xs (os, hs, removed, notFound)
      else if optouts_some os (normalizeNumber x) then
        spec_optin_bulk ts xs
          (remove_first os (normalizeNumber x),
           hs @ [\<lparr>h_number = normalizeNumber x, h_action = ''optin'', h_timestamp = ts,
                   h_receivedOn = JStr ''api'', h_configId = JUndefined\<rparr>],
           removed @ [normalizeNumber x], notFound)
      else spec_optin_bulk ts xs (os, hs, removed, notFound @ [normalizeNumber x]))"
  by (simp add: Let_def optouts_some_iff)

declare spec_optin_bulk.simps(2) [simp del]

text \<open>On numbers that are strings or absent the loop is the bulk opt-in of the specification.\<close>

lemma optin_bulk_loop_spec:
  "optin_bulk_loop ts (map Val vs) (os, hs, removed, notFound)
     = Inr (spec_optin_bulk ts vs (os, hs, removed, notFound))"
proof (induction vs arbitrary: os hs removed notFound)
  case Nil
  show ?case by simp
next
  case (Cons v vs)
  show ?case
    by (simp only: list.map optin_bulk_loop.simps field.case optin_bulk_one_eq
        spec_optin_bulk_Cons Cons.IH split: if_splits) simp
qed

lemma spec_optin_bulk_props:
  "spec_optin_bulk ts vs (os, hs, removed, notFound) = (os', hs', removed', notFound') \<Longrightarrow>
   \<exists>radd nadd. removed' = removed @ radd \<and> notFound' = notFound @ nadd
     \<and> hs' = hs @ map (\<lambda>n. \<lparr>h_number = n, h_action = ''optin'', h_timestamp = ts,
                              h_receivedOn = JStr ''api'', h_configId = JUndefined\<rparr>) radd
     \<and> length os' + length radd = length os
     \<and> (\<forall>n\<in>set radd. optouts_some os n)
     \<and> mset radd + mset nadd = mset (filter (\<lambda>n. n \<noteq> []) (map normalizeNumber vs))
     \<and> (\<forall>m. optouts_some os' m \<longrightarrow> optouts_some os m)"
proof (induction vs arbitrary: os hs removed notFound)
  case Nil
  then show ?case by simp
next
  case (Cons v vs)
  let ?n = "normalizeNumber v"
  let ?E = "\<lambda>n. \<lparr>h_number = n, h_action = ''optin'', h_timestamp = ts,
                 h_receivedOn = JStr ''api'', h_configId = JUndefined\<rparr>"
  consider (skip) "?n = []" | (hit) "?n \<noteq> []" "optouts_some os ?n"
    | (miss) "?n \<noteq> []" "\<not> optouts_some os ?n"
    by blast
  then show ?case
  proof cases
    case skip
    with Cons.prems
    have "spec_optin_bulk ts vs (os, hs, removed, notFound) = (os', hs', removed', notFound')"
      by (simp add: spec_optin_bulk_Cons)
    from Cons.IH [OF this] skip show ?thesis by simp
  next
    case miss
    with Cons.prems
    have "spec_optin_bulk ts vs (os, hs, removed, notFound @ [?n])
            = (os', hs', removed', notFound')"
      by (simp add: spec_optin_bulk_Cons)
    from Cons.IH [OF this] obtain radd nadd where
      r: "removed' = removed @ radd" and nf: "notFound' = (notFound @ [?n]) @ nadd"
      and h: "hs' = hs @ map ?E radd"
      and l: "length os' + length radd = length os"
      and s: "\<forall>n\<in>set radd. optouts_some os n"
      and m: "mset radd + mset nadd = mset (filter (\<lambda>n. n \<noteq> []) (map normalizeNumber vs))"
      and mono: "\<forall>m. optouts_some os' m \<longrightarrow> optouts_some os m"
      by blast
    have nf': "notFound' = notFound @ (?n # nadd)" using nf by simp
    have m': "mset radd + mset (?n # nadd)
        = mset (filter (\<lambda>n. n \<noteq> []) (map normalizeNumber (v # vs)))"
      using m miss(1) by simp
    show ?thesis
      by (intro exI conjI) (rule r, rule nf', rule h, rule l, rule s, rule m', rule mono)
  next
    case hit
    with Cons.prems
    have "spec_optin_bulk ts vs (remove_first os ?n, hs @ [?E ?n], removed @ [?n], notFound)
            = (os', hs', removed', notFound')"
      by (simp add: spec_optin_bulk_Cons)
    from Cons.IH [OF this] obtain radd nadd where
      r: "removed' = (removed @ [?n]) @ radd" and nf: "notFound' = notFound @ nadd"
      and h: "hs' = (hs @ [?E ?n]) @ map ?E radd"
      and l: "length os' + length radd = length (remove_first os ?n)"
      and s: "\<forall>m\<in>set radd. optouts_some (remove_first os ?n) m"
      and m: "mset radd + mset nadd = mset (filter (\<lambda>n. n \<noteq> []) (map normalizeNumber vs))"
      and mono: "\<forall>m. optouts_some os' m \<longrightarrow> optouts_some (remove_first os ?n) m"
      by blast
    have r': "removed' = removed @ (?n # radd)" using r by simp
    have h': "hs' = hs @ map ?E (?n # radd)" using h by simp
    have l': "length os' + length (?n # radd) = length os"
      using l remove_first_length [OF hit(2)] by simp
    have s': "\<forall>m\<in>set (?n # radd). optouts_some os m"
      using s hit(2) remove_first_some by auto
    have m': "mset (?n # radd) + mset nadd
        = mset (filter (\<lambda>n. n \<noteq> []) (map normalizeNumber (v # vs)))"
      using m hit(1) by simp
    have mono': "\<forall>m. optouts_some os' m \<longrightarrow> optouts_some os m"
      using mono remove_first_some by blast
    show ?thesis
      by (intro exI conjI) (rule r', rule nf, rule h', rule l', rule s', rule m', rule mono')
  qed
qed

lemma spec_optin_bulk_unblocks:
  "distinct_numbers os \<Longrightarrow>
   spec_optin_bulk ts vs (os, hs, removed, notFound) = (os', hs', removed', notFound') \<Longrightarrow>
   distinct_numbers os'
   \<and> (\<forall>x\<in>set vs. normalizeNumber x \<noteq> [] \<longrightarrow> \<not> optouts_some os' (normalizeNumber x))"
proof (induction vs arbitrary: os hs removed notFound)
  case Nil
  then show ?case by simp
next
  case (Cons v vs)
  let ?n = "normalizeNumber v"
  let ?E = "\<lambda>n. \<lparr>h_number = n, h_action = ''optin'', h_timestamp = ts,
                 h_receivedOn = JStr ''api'', h_configId = JUndefined\<rparr>"
  consider (skip) "?n = []" | (hit) "?n \<noteq> []" "optouts_some os ?n"
    | (miss) "?n \<noteq> []" "\<not> optouts_some os ?n"
    by blast
  then show ?case
  proof cases
    case skip
    with Cons.prems(2)
    have "spec_optin_bulk ts vs (os, hs, removed, notFound) = (os', hs', removed', notFound')"
      by (simp add: spec_optin_bulk_Cons)
    from Cons.IH [OF Cons.prems(1) this] skip show ?thesis by simp
  next
    case miss
    with Cons.prems(2)
    have rest: "spec_optin_bulk ts vs (os, hs, removed, notFound @ [?n])
            = (os', hs', removed', notFound')"
      by (simp add: spec_optin_bulk_Cons)
    from spec_optin_bulk_props [OF rest]
    have mono: "\<forall>m. optouts_some os' m \<longrightarrow> optouts_some os m" by blast
    with miss(2) have "\<not> optouts_some os' ?n" by blast
    with Cons.IH [OF Cons.prems(1) rest] show ?thesis by simp
  next
    case hit
    with Cons.prems(2)
    have rest: "spec_optin_bulk ts vs
                  (remove_first os ?n, hs @ [?E ?n], removed @ [?n], notFound)
            = (os', hs', removed', notFound')"
      by (simp add: spec_optin_bulk_Cons)
    have d: "distinct_numbers (remove_first os ?n)"
      by (rule remove_first_distinct_numbers [OF Cons.prems(1)])
    from spec_optin_bulk_props [OF rest]
    have mono: "\<forall>m. optouts_some os' m \<longrightarrow> optouts_some (remove_first os ?n) m" by blast
    with remove_first_not_blocked [OF Cons.prems(1), of ?n]
    have "\<not> optouts_some os' ?n" by blast
    with Cons.IH [OF d rest] show ?thesis by simp
  qed
qed

lemma spec_optin_bulk_absent:
  "\<forall>x\<in>set vs. \<not> optouts_some os (normalizeNumber x) \<Longrightarrow>
   spec_optin_bulk ts vs (os, hs, removed, notFound) =
     (os, hs, removed, notFound @ filter (\<lambda>n. n \<noteq> []) (map normalizeNumber vs))"
  by (induction vs arbitrary: notFound) (simp_all add: spec_optin_bulk_Cons)

text \<open>
  Claim C10, as amended. For a number that is a string or absent, \<open>POST /api/optin\<close>
  answers success; it removes the first entry with the normalized number and appends an
  \<open>optin\<close> history entry when such an entry is in the opt-out list, and leaves list and
  history unchanged when none is. For a non-empty array of numbers that are strings or
  absent, \<open>POST /api/optin/bulk\<close> answers success and does what the specification's bulk
  opt-in does: the history gains one \<open>optin\<close> entry for each number reported under
  \<open>removed\<close>, each of these was in the list, the list shrinks by their count, every
  number whose normalized form is not empty is reported once, under \<open>removed\<close> or under
  \<open>notFound\<close>, and a number that normalizes to the empty string is skipped. When no two
  entries of the list have the same normalized number, none of the requested numbers is
  blocked afterwards. When none of the numbers is in the list, list and history are
  unchanged.
\<close>

theorem optin_history_only_on_removal:
  "api_optin_any now (Val v) st =
     Inr ((200, JO [(''success'', JB True)]),
          if optouts_some (optouts st) (normalizeNumber v) then
            \<lparr>optouts = remove_first (optouts st) (normalizeNumber v),
             history = history st @
               [\<lparr>h_number = normalizeNumber v, h_action = ''optin'', h_timestamp = now,
                 h_receivedOn = JStr ''manual'', h_configId = JUndefined\<rparr>]\<rparr>
          else st)
   \<and> (vs \<noteq> [] \<longrightarrow>
        (\<exists>os' hs' removed notFound.
           spec_optin_bulk now vs (optouts st, history st, [], []) = (os', hs', removed, notFound)
           \<and> api_optin_bulk now (Some (map Val vs)) st
               = Inr ((200, optin_bulk_json (length vs) removed notFound),
                      \<lparr>optouts = os', history = hs'\<rparr>)
           \<and> hs' = history st @
                map (\<lambda>n. \<lparr>h_number = n, h_action = ''optin'', h_timestamp = now,
                           h_receivedOn = JStr ''api'', h_configId = JUndefined\<rparr>) removed
           \<and> length os' + length removed = length (optouts st)
           \<and> (\<forall>n\<in>set removed. optouts_some (optouts st) n)
           \<and> mset removed + mset notFound
               = mset (filter (\<lambda>n. n \<noteq> []) (map normalizeNumber vs))
           \<and> (distinct_numbers (optouts st) \<longrightarrow>
                (\<forall>x\<in>set vs. normalizeNumber x \<noteq> [] \<longrightarrow>
                   \<not> optouts_some os' (normalizeNumber x)))
           \<and> ((\<forall>x\<in>set vs. \<not> optouts_some (optouts st) (normalizeNumber x)) \<longrightarrow>
                \<lparr>optouts = os', history = hs'\<rparr> = st \<and> removed = []
                \<and> notFound = filter (\<lambda>n. n \<noteq> []) (map normalizeNumber vs))))"
proof (intro conjI impI)
  show "api_optin_any now (Val v) st =
     Inr ((200, JO [(''success'', JB True)]),
          if optouts_some (optouts st) (normalizeNumber v) then
            \<lparr>optouts = remove_first (optouts st) (normalizeNumber v),
             history = history st @
               [\<lparr>h_number = normalizeNumber v, h_action = ''optin'', h_timestamp = now,
                 h_receivedOn = JStr ''manual'', h_configId = JUndefined\<rparr>]\<rparr>
          else st)"
    by (simp add: api_optin_any_def api_optin_eq)
next
  assume ne: "vs \<noteq> []"
  let ?E = "\<lambda>n. \<lparr>h_number = n, h_action = ''optin'', h_timestamp = now,
                 h_receivedOn = JStr ''api'', h_configId = JUndefined\<rparr>"
  obtain os' hs' removed notFound where
    spec: "spec_optin_bulk now vs (optouts st, history st, [], []) = (os', hs', removed, notFound)"
    by (metis prod_cases4)
  have resp: "api_optin_bulk now (Some (map Val vs)) st
      = Inr ((200, optin_bulk_json (length vs) removed notFound),
             \<lparr>optouts = os', history = hs'\<rparr>)"
    using ne spec by (simp add: api_optin_bulk_def optin_bulk_loop_spec)
  from spec_optin_bulk_props [OF spec] obtain radd nadd where
    r: "removed = [] @ radd" and n: "notFound = [] @ nadd"
    and h: "hs' = history st @ map ?E radd"
    and l: "length os' + length radd = length (optouts st)"
    and s: "\<forall>n\<in>set radd. optouts_some (optouts st) n"
    and m: "mset radd + mset nadd = mset (filter (\<lambda>n. n \<noteq> []) (map normalizeNumber vs))"
    by blast
  have radd: "radd = removed" and nadd: "nadd = notFound" using r n by simp_all
  have c2: "hs' = history st @ map ?E removed" using h radd by simp
  have c3: "length os' + length removed = length (optouts st)" using l radd by simp
  have c4: "\<forall>n\<in>set removed. optouts_some (optouts st) n" using s radd by simp
  have c5: "mset removed + mset notFound
      = mset (filter (\<lambda>n. n \<noteq> []) (map normalizeNumber vs))"
    using m radd nadd by simp
  have c6: "distinct_numbers (optouts st) \<longrightarrow>
      (\<forall>x\<in>set vs. normalizeNumber x \<noteq> [] \<longrightarrow> \<not> optouts_some os' (normalizeNumber x))"
  proof
    assume "distinct_numbers (optouts st)"
    from spec_optin_bulk_unblocks [OF this spec]
    show "\<forall>x\<in>set vs. normalizeNumber x \<noteq> [] \<longrightarrow> \<not> optouts_some os' (normalizeNumber x)"
      by (rule conjunct2)
  qed
  have c7: "(\<forall>x\<in>set vs. \<not> optouts_some (optouts st) (normalizeNumber x)) \<longrightarrow>
      \<lparr>optouts = os', history = hs'\<rparr> = st \<and> removed = []
      \<and> notFound = filter (\<lambda>n. n \<noteq> []) (map normalizeNumber vs)"
  proof
    assume "\<forall>x\<in>set vs. \<not> optouts_some (optouts st) (normalizeNumber x)"
    from spec_optin_bulk_absent [OF this, of now "history st" "[]" "[]"] spec
    show "\<lparr>optouts = os', history = hs'\<rparr> = st \<and> removed = []
      \<and> notFound = filter (\<lambda>n. n \<noteq> []) (map normalizeNumber vs)"
      by simp
  qed
  show "\<exists>os' hs' removed notFound.
           spec_optin_bulk now vs (optouts st, history st, [], []) = (os', hs', removed, notFound)
           \<and> api_optin_bulk now (Some (map Val vs)) st
               = Inr ((200, optin_bulk_json (length vs) removed notFound),
                      \<lparr>optouts = os', history = hs'\<rparr>)
           \<and> hs' = history st @ map ?E removed
           \<and> length os' + length removed = length (optouts st)
           \<and> (\<forall>n\<in>set removed. optouts_some (optouts st) n)
           \<and> mset removed + mset notFound
               = mset (filter (\<lambda>n. n \<noteq> []) (map normalizeNumber vs))
           \<and> (distinct_numbers (optouts st) \<longrightarrow>
                (\<forall>x\<in>set vs. normalizeNumber x \<noteq> [] \<longrightarrow>
                   \<not> optouts_some os' (normalizeNumber x)))
           \<and> ((\<forall>x\<in>set vs. \<not> optouts_some (optouts st) (normalizeNumber x)) \<longrightarrow>
                \<lparr>optouts = os', history = hs'\<rparr> = st \<and> removed = []
                \<and> notFound = filter (\<lambda>n. n \<noteq> []) (map normalizeNumber vs))"
    by (intro exI conjI) (rule spec, rule resp, rule c2, rule c3, rule c4, rule c5, rule c6, rule c7)
qed

theorem optin_history_only_on_removal_witness:
  "[JStr ''+44 7700 900000'', JStr ''n/a'', JStr ''+1 555 0100''] \<noteq> []
   \<and> api_optin_any 5 (Val (JStr ''+1 555 0100''))
        \<lparr>optouts = [OStr ''15550199'', OStr ''447700900000''], history = []\<rparr>
      = Inr ((200, JO [(''success'', JB True)]),
             \<lparr>optouts = [OStr ''15550199'', OStr ''447700900000''], history = []\<rparr>)
   \<and> api_optin_bulk 5
        (Some (map Val [JStr ''+44 7700 900000'', JStr ''n/a'', JStr ''+1 555 0100'']))
        \<lparr>optouts = [OStr ''15550199'', OStr ''447700900000''], history = []\<rparr>
      = Inr ((200, optin_bulk_json 3 [''447700900000''] [''15550100'']),
             \<lparr>optouts = [OStr ''15550199''],
              history = [\<lparr>h_number = ''447700900000'', h_action = ''optin'', h_timestamp = 5,
                          h_receivedOn = JStr ''api'', h_configId = JUndefined\<rparr>]\<rparr>)"
proof -
  let ?st = "\<lparr>optouts = [OStr ''15550199'', OStr ''447700900000''], history = []\<rparr>"
  let ?vs = "[JStr ''+44 7700 900000'', JStr ''n/a'', JStr ''+1 555 0100'']"
  have ne: "?vs \<noteq> []" by simp
  have a: "\<not> optouts_some (optouts ?st) (normalizeNumber (JStr ''+1 555 0100''))"
    by code_simp
  have ev: "spec_optin_bulk 5 ?vs (optouts ?st, history ?st, [], [])
      = ([OStr ''15550199''],
         [\<lparr>h_number = ''447700900000'', h_action = ''optin'', h_timestamp = 5,
           h_receivedOn = JStr ''api'', h_configId = JUndefined\<rparr>],
         [''447700900000''], [''15550100''])"
    by code_simp
  note inst = optin_history_only_on_removal [of 5 "JStr ''+1 555 0100''" ?st ?vs]
  from inst [THEN conjunct1] a
  have manual: "api_optin_any 5 (Val (JStr ''+1 555 0100'')) ?st
      = Inr ((200, JO [(''success'', JB True)]), ?st)"
    by simp
  from inst [THEN conjunct2, THEN mp, OF ne] obtain os' hs' removed notFound where
    s: "spec_optin_bulk 5 ?vs (optouts ?st, history ?st, [], []) = (os', hs', removed, notFound)"
    and r: "api_optin_bulk 5 (Some (map Val ?vs)) ?st
               = Inr ((200, optin_bulk_json (length ?vs) removed notFound),
                      \<lparr>optouts = os', history = hs'\<rparr>)"
    by blast
  from s ev have "os' = [OStr ''15550199'']"
    "hs' = [\<lparr>h_number = ''447700900000'', h_action = ''optin'', h_timestamp = 5,
           h_receivedOn = JStr ''api'', h_configId = JUndefined\<rparr>]"
    "removed = [''447700900000'']" "notFound = [''15550100'']"
    by simp_all
  with r have bulk: "api_optin_bulk 5 (Some (map Val ?vs)) ?st
      = Inr ((200, optin_bulk_json 3 [''447700900000''] [''15550100'']),
             \<lparr>optouts = [OStr ''15550199''],
              history = [\<lparr>h_number = ''447700900000'', h_action = ''optin'', h_timestamp = 5,
                          h_receivedOn = JStr ''api'', h_configId = JUndefined\<rparr>]\<rparr>)"
    by (simp add: numeral_3_eq_3)
  from ne manual bulk show ?thesis by blast
qed

theorem optin_history_only_on_removal_counterexample:
  "\<not> optouts_some [] (normalizeNumber (JStr ''n/a''))
   \<and> api_optin_bulk 5 (Some [Val (JStr ''n/a'')]) \<lparr>optouts = [], history = []\<rparr>
      = Inr ((200, JO [(''success'', JB True),
                       (''summary'', JO [(''total'', JN 1), (''removed'', JN 0),
                                         (''notFound'', JN 0)]),
                       (''results'', JO [(''removed'', JA []), (''notFound'', JA [])])]),
             \<lparr>optouts = [], history = []\<rparr>)"
  by code_simp

subsection \<open>The bulk send loop\<close>

lemma bulk_send_one_invalid:
  "normalizeNumber recipient = [] \<Longrightarrow>
   bulk_send_one fetch creds os from text recipient (results, calls, t) =
     (results\<lparr>r_failed := r_failed results @
         [JO [(''to'', JV recipient), (''error'', JS ''Invalid number'')]]\<rparr>, calls, t)"
  by (simp add: bulk_send_one_def)

lemma bulk_send_one_blocked:
  "normalizeNumber recipient \<noteq> [] \<Longrightarrow> optouts_some os (normalizeNumber recipient) \<Longrightarrow>
   bulk_send_one fetch creds os from text recipient (results, calls, t) =
     (results\<lparr>r_blocked := r_blocked results @
         [JO [(''to'', JS (normalizeNumber recipient)), (''reason'', JS ''opted-out'')]]\<rparr>,
      calls, t)"
  by (simp add: bulk_send_one_def)

lemma bulk_send_one_bad_sender:
  "normalizeNumber recipient \<noteq> [] \<Longrightarrow> \<not> optouts_some os (normalizeNumber recipient) \<Longrightarrow>
   bulk_send_one fetch creds os NonString text recipient (results, calls, t) =
     (results\<lparr>r_failed := r_failed results @
         [JO [(''to'', JS (normalizeNumber recipient)),
              (''error'', JS ''num.replace is not a function'')]]\<rparr>, calls, t)"
  by (simp add: bulk_send_one_def)

lemma bulk_send_one_attempt:
  assumes "normalizeNumber recipient \<noteq> []"
    and "\<not> optouts_some os (normalizeNumber recipient)"
  shows "\<exists>x. bulk_send_one fetch creds os (Val fromv) text recipient (results, calls, t) =
     (if (\<exists>data msg. fst (fetch t (bulk_request creds fromv text (normalizeNumber recipient)))
              = FetchData data (Some msg) \<and> m_status msg = JStr ''0'')
      then results\<lparr>r_sent := r_sent results @ [x]\<rparr>
      else results\<lparr>r_failed := r_failed results @ [x]\<rparr>,
      calls @ [bulk_request creds fromv text (normalizeNumber recipient)],
      snd (fetch t (bulk_request creds fromv text (normalizeNumber recipient))))"
proof -
  let ?req = "bulk_request creds fromv text (normalizeNumber recipient)"
  obtain res t' where f: "fetch t ?req = (res, t')" by (cases "fetch t ?req")
  show ?thesis
  proof (cases res)
    case (FetchThrows message)
    with assms f show ?thesis by (simp add: bulk_send_one_def Let_def) blast
  next
    case (FetchData data m)
    show ?thesis
    proof (cases m)
      case None
      with assms f FetchData show ?thesis by (simp add: bulk_send_one_def Let_def) blast
    next
      case (Some msg)
      with assms f FetchData show ?thesis
        by (cases "m_status msg = JStr ''0''") (simp_all add: bulk_send_one_def Let_def, blast+)
    qed
  qed
qed

text \<open>The requests of a pass of the loop: none, or the one for the recipient.\<close>

lemma bulk_send_one_step:
  assumes "bulk_send_one fetch creds os from text r (results, calls, t) = (results1, calls1, t1)"
  shows "\<exists>x. results1 = results\<lparr>r_sent := r_sent results @ [x]\<rparr>
            \<or> results1 = results\<lparr>r_blocked := r_blocked results @ [x]\<rparr>
            \<or> results1 = results\<lparr>r_failed := r_failed results @ [x]\<rparr>"
    and "r_blocked results1 = r_blocked results @
           map (\<lambda>r. JO [(''to'', JS (normalizeNumber r)), (''reason'', JS ''opted-out'')])
             (filter (\<lambda>r. normalizeNumber r \<noteq> [] \<and> optouts_some os (normalizeNumber r)) [r])"
    and "calls1 = calls @
           (case from of
              NonString \<Rightarrow> []
            | Val fromv \<Rightarrow>
                map (\<lambda>r. bulk_request creds fromv text (normalizeNumber r))
                  (filter (\<lambda>r. normalizeNumber r \<noteq> [] \<and> \<not> optouts_some os (normalizeNumber r))
                     [r]))"
    and "set (r_failed results) \<subseteq> set (r_failed results1)"
    and "normalizeNumber r = [] \<Longrightarrow>
           JO [(''to'', JV r), (''error'', JS ''Invalid number'')] \<in> set (r_failed results1)"
proof -
  let ?goal = "(\<exists>x. results1 = results\<lparr>r_sent := r_sent results @ [x]\<rparr>
            \<or> results1 = results\<lparr>r_blocked := r_blocked results @ [x]\<rparr>
            \<or> results1 = results\<lparr>r_failed := r_failed results @ [x]\<rparr>)
    \<and> r_blocked results1 = r_blocked results @
           map (\<lambda>r. JO [(''to'', JS (normalizeNumber r)), (''reason'', JS ''opted-out'')])
             (filter (\<lambda>r. normalizeNumber r \<noteq> [] \<and> optouts_some os (normalizeNumber r)) [r])
    \<and> calls1 = calls @
           (case from of
              NonString \<Rightarrow> []
            | Val fromv \<Rightarrow>
                map (\<lambda>r. bulk_request creds fromv text (normalizeNumber r))
                  (filter (\<lambda>r. normalizeNumber r \<noteq> [] \<and> \<not> optouts_some os (normalizeNumber r))
                     [r]))
    \<and> set (r_failed results) \<subseteq> set (r_failed results1)
    \<and> (normalizeNumber r = [] \<longrightarrow>
           JO [(''to'', JV r), (''error'', JS ''Invalid number'')] \<in> set (r_failed results1))"
  consider (invalid) "normalizeNumber r = []"
    | (blocked) "normalizeNumber r \<noteq> []" "optouts_some os (normalizeNumber r)"
    | (bad) "normalizeNumber r \<noteq> []" "\<not> optouts_some os (normalizeNumber r)" "from = NonString"
    | (attempt) fromv where "normalizeNumber r \<noteq> []" "\<not> optouts_some os (normalizeNumber r)"
        "from = Val fromv"
    by (cases "from") auto
  then have ?goal
  proof cases
    case invalid
    with assms have "results1 = results\<lparr>r_failed := r_failed results @
         [JO [(''to'', JV r), (''error'', JS ''Invalid number'')]]\<rparr>" "calls1 = calls"
      by (simp_all add: bulk_send_one_invalid)
    with invalid show ?thesis by (cases "from") auto
  next
    case blocked
    with assms have "results1 = results\<lparr>r_blocked := r_blocked results @
         [JO [(''to'', JS (normalizeNumber r)), (''reason'', JS ''opted-out'')]]\<rparr>"
      "calls1 = calls"
      by (simp_all add: bulk_send_one_blocked)
    with blocked show ?thesis by (cases "from") auto
  next
    case bad
    with assms have "results1 = results\<lparr>r_failed := r_failed results @
         [JO [(''to'', JS (normalizeNumber r)),
              (''error'', JS ''num.replace is not a function'')]]\<rparr>" "calls1 = calls"
      by (simp_all add: bulk_send_one_bad_sender)
    with bad show ?thesis by auto
  next
    case attempt
    from bulk_send_one_attempt [OF attempt(1,2), of fetch creds fromv "text" results calls t]
      assms attempt(3)
    obtain x where "(results1, calls1, t1) =
     (if (\<exists>data msg. fst (fetch t (bulk_request creds fromv text (normalizeNumber r)))
              = FetchData data (Some msg) \<and> m_status msg = JStr ''0'')
      then results\<lparr>r_sent := r_sent results @ [x]\<rparr>
      else results\<lparr>r_failed := r_failed results @ [x]\<rparr>,
      calls @ [bulk_request creds fromv text (normalizeNumber r)],
      snd (fetch t (bulk_request creds fromv text (normalizeNumber r))))"
      by auto
    with attempt show ?thesis
      by (cases "\<exists>data msg. fst (fetch t (bulk_request creds fromv text (normalizeNumber r)))
              = FetchData data (Some msg) \<and> m_status msg = JStr ''0''") auto
  qed
  then show "\<exists>x. results1 = results\<lparr>r_sent := r_sent results @ [x]\<rparr>
            \<or> results1 = results\<lparr>r_blocked := r_blocked results @ [x]\<rparr>
            \<or> results1 = results\<lparr>r_failed := r_failed results @ [x]\<rparr>"
    and "r_blocked results1 = r_blocked results @
           map (\<lambda>r. JO [(''to'', JS (normalizeNumber r)), (''reason'', JS ''opted-out'')])
             (filter (\<lambda>r. normalizeNumber r \<noteq> [] \<and> optouts_some os (normalizeNumber r)) [r])"
    and "calls1 = calls @
           (case from of
              NonString \<Rightarrow> []
            | Val fromv \<Rightarrow>
                map (\<lambda>r. bulk_request creds fromv text (normalizeNumber r))
                  (filter (\<lambda>r. normalizeNumber r \<noteq> [] \<and> \<not> optouts_some os (normalizeNumber r))
                     [r]))"
    and "set (r_failed results) \<subseteq> set (r_failed results1)"
    and "normalizeNumber r = [] \<Longrightarrow>
           JO [(''to'', JV r), (''error'', JS ''Invalid number'')] \<in> set (r_failed results1)"
    by blast+
qed

lemma bulk_send_one_count:
  "bulk_send_one fetch creds os from text r (results, calls, t) = (results1, calls1, t1) \<Longrightarrow>
   length (r_sent results1) + length (r_blocked results1) + length (r_failed results1)
     = Suc (length (r_sent results) + length (r_blocked results) + length (r_failed results))"
  using bulk_send_one_step(1) [of fetch creds os "from" "text" r results calls t results1 calls1 t1]
  by auto

lemma bulk_send_loop_inv:
  "bulk_send_loop fetch creds os from text (map Val rs) (results, calls, t) = (out, calls', t') \<Longrightarrow>
   \<exists>results'. out = Inr results'
   \<and> length (r_sent results') + length (r_blocked results') + length (r_failed results')
     = length (r_sent results) + length (r_blocked results) + length (r_failed results)
       + length rs
   \<and> r_blocked results' = r_blocked results @
        map (\<lambda>r. JO [(''to'', JS (normalizeNumber r)), (''reason'', JS ''opted-out'')])
          (filter (\<lambda>r. normalizeNumber r \<noteq> [] \<and> optouts_some os (normalizeNumber r)) rs)
   \<and> calls' = calls @
        (case from of
           NonString \<Rightarrow> []
         | Val fromv \<Rightarrow>
             map (\<lambda>r. bulk_request creds fromv text (normalizeNumber r))
               (filter (\<lambda>r. normalizeNumber r \<noteq> [] \<and> \<not> optouts_some os (normalizeNumber r)) rs))
   \<and> set (r_failed results) \<subseteq> set (r_failed results')
   \<and> (\<forall>r\<in>set rs. normalizeNumber r = [] \<longrightarrow>
         JO [(''to'', JV r), (''error'', JS ''Invalid number'')] \<in> set (r_failed results'))"
proof (induction rs arbitrary: results calls t)
  case Nil
  then show ?case by (cases "from") auto
next
  case (Cons r rs)
  obtain results1 calls1 t1 where
    one: "bulk_send_one fetch creds os from text r (results, calls, t) = (results1, calls1, t1)"
    by (metis prod_cases3)
  with Cons.prems
  have rest: "bulk_send_loop fetch creds os from text (map Val rs) (results1, calls1, t1)
                = (out, calls', t')"
    by simp
  from Cons.IH [OF rest] obtain results' where
    i0: "out = Inr results'"
    and i1: "length (r_sent results') + length (r_blocked results') + length (r_failed results')
     = length (r_sent results1) + length (r_blocked results1) + length (r_failed results1)
       + length rs"
    and i2: "r_blocked results' = r_blocked results1 @
        map (\<lambda>r. JO [(''to'', JS (normalizeNumber r)), (''reason'', JS ''opted-out'')])
          (filter (\<lambda>r. normalizeNumber r \<noteq> [] \<and> optouts_some os (normalizeNumber r)) rs)"
    and i3: "calls' = calls1 @
        (case from of
           NonString \<Rightarrow> []
         | Val fromv \<Rightarrow>
             map (\<lambda>r. bulk_request creds fromv text (normalizeNumber r))
               (filter (\<lambda>r. normalizeNumber r \<noteq> [] \<and> \<not> optouts_some os (normalizeNumber r)) rs))"
    and i4: "set (r_failed results1) \<subseteq> set (r_failed results')"
    and i5: "\<forall>r\<in>set rs. normalizeNumber r = [] \<longrightarrow>
         JO [(''to'', JV r), (''error'', JS ''Invalid number'')] \<in> set (r_failed results')"
    by (elim exE conjE)
  note step = bulk_send_one_step [OF one]
  note count = bulk_send_one_count [OF one]
  have c1: "length (r_sent results') + length (r_blocked results') + length (r_failed results')
     = length (r_sent results) + length (r_blocked results) + length (r_failed results)
       + length (r # rs)"
    using i1 count by simp
  have c2: "r_blocked results' = r_blocked results @
        map (\<lambda>r. JO [(''to'', JS (normalizeNumber r)), (''reason'', JS ''opted-out'')])
          (filter (\<lambda>r. normalizeNumber r \<noteq> [] \<and> optouts_some os (normalizeNumber r)) (r # rs))"
    using i2 step(2) by simp
  have c3: "calls' = calls @
        (case from of
           NonString \<Rightarrow> []
         | Val fromv \<Rightarrow>
             map (\<lambda>r. bulk_request creds fromv text (normalizeNumber r))
               (filter (\<lambda>r. normalizeNumber r \<noteq> [] \<and> \<not> optouts_some os (normalizeNumber r))
                  (r # rs)))"
    using i3 step(3) by (cases "from") simp_all
  have c4: "set (r_failed results) \<subseteq> set (r_failed results')"
    using i4 step(4) by blast
  have c5: "\<forall>x\<in>set (r # rs). normalizeNumber x = [] \<longrightarrow>
         JO [(''to'', JV x), (''error'', JS ''Invalid number'')] \<in> set (r_failed results')"
    using i4 i5 step(5) by auto
  show ?case
    by (intro exI conjI) (rule i0, rule c1, rule c2, rule c3, rule c4, rule c5)
qed

text \<open>The loop stops at the first recipient that is not a string, with the calls made so far.\<close>

lemma bulk_send_loop_throws:
  "bulk_send_loop fetch creds os from text (map Val rs @ NonString # rest) (results, calls, t)
     = (out, calls', t') \<Longrightarrow>
   out = Inl TypeError
   \<and> calls' = calls @
        (case from of
           NonString \<Rightarrow> []
         | Val fromv \<Rightarrow>
             map (\<lambda>r. bulk_request creds fromv text (normalizeNumber r))
               (filter (\<lambda>r. normalizeNumber r \<noteq> [] \<and> \<not> optouts_some os (normalizeNumber r)) rs))"
proof (induction rs arbitrary: results calls t)
  case Nil
  then show ?case by (cases "from") auto
next
  case (Cons r rs)
  obtain results1 calls1 t1 where
    one: "bulk_send_one fetch creds os from text r (results, calls, t) = (results1, calls1, t1)"
    by (metis prod_cases3)
  with Cons.prems
  have rest: "bulk_send_loop fetch creds os from text (map Val rs @ NonString # rest)
                (results1, calls1, t1) = (out, calls', t')"
    by simp
  note ih = Cons.IH [OF rest]
  note step = bulk_send_one_step [OF one]
  have c1: "out = Inl TypeError" by (rule ih [THEN conjunct1])
  have c2: "calls' = calls @
        (case from of
           NonString \<Rightarrow> []
         | Val fromv \<Rightarrow>
             map (\<lambda>r. bulk_request creds fromv text (normalizeNumber r))
               (filter (\<lambda>r. normalizeNumber r \<noteq> [] \<and> \<not> optouts_some os (normalizeNumber r))
                  (r # rs)))"
    using ih [THEN conjunct2] step(3) by (cases "from") simp_all
  from c1 c2 show ?case by blast
qed

lemma api_send_bulk_loop:
  assumes "truthy (apiKey creds)" and "truthy (apiSecret creds)"
    and "bb_recipients body = Some rs" and "rs \<noteq> []"
    and "field_truthy (bb_from body)" and "field_truthy (bb_text body)"
  shows "\<exists>out calls t'.
     bulk_send_loop fetch creds os (bb_from body) (bb_text body) rs
       (\<lparr>r_sent = [], r_blocked = [], r_failed = []\<rparr>, [], t) = (out, calls, t')
     \<and> api_send_bulk fetch creds body os t =
         (case out of Inl e \<Rightarrow> Inl e | Inr results \<Rightarrow> Inr (200, bulk_json (length rs) results),
          calls, t')"
proof -
  obtain out calls t' where
    "bulk_send_loop fetch creds os (bb_from body) (bb_text body) rs
       (\<lparr>r_sent = [], r_blocked = [], r_failed = []\<rparr>, [], t) = (out, calls, t')"
    by (metis prod_cases3)
  with assms show ?thesis
    by (cases out) (simp_all add: api_send_bulk_def)
qed

text \<open>
  On a recipients array of strings the bulk send partitions the recipients: every pass
  of the loop appends one entry to exactly one of \<open>sent\<close>, \<open>blocked\<close> and \<open>failed\<close>, so the
  three lists together have one entry for each recipient; a recipient that normalizes
  to the empty string gets the entry \<open>{to, error: 'Invalid number'}\<close> in \<open>failed\<close> with no
  transport call; and the summary reports the number of recipients as \<open>total\<close> and the
  lengths of the three lists.
\<close>

lemma bulk_send_strings_partition:
  assumes "truthy (apiKey creds)" and "truthy (apiSecret creds)"
    and "bb_recipients body = Some (map Val rs)" and "rs \<noteq> []"
    and "field_truthy (bb_from body)" and "field_truthy (bb_text body)"
  shows "\<exists>(results :: bulk_results) calls t'.
     api_send_bulk fetch creds body os t =
       (Inr (200, JO [(''summary'', JO [(''total'', JN (length rs)),
                                    (''sent'', JN (length (r_sent results))),
                                    (''blocked'', JN (length (r_blocked results))),
                                    (''failed'', JN (length (r_failed results)))]),
                  (''results'', JO [(''sent'', JA (r_sent results)),
                                    (''blocked'', JA (r_blocked results)),
                                    (''failed'', JA (r_failed results))])]), calls, t')
     \<and> length (r_sent results) + length (r_blocked results) + length (r_failed results)
         = length rs
     \<and> (\<forall>r\<in>set rs. normalizeNumber r = [] \<longrightarrow>
           JO [(''to'', JV r), (''error'', JS ''Invalid number'')] \<in> set (r_failed results))
     \<and> r_blocked results =
         map (\<lambda>r. JO [(''to'', JS (normalizeNumber r)), (''reason'', JS ''opted-out'')])
           (filter (\<lambda>r. normalizeNumber r \<noteq> [] \<and> optouts_some os (normalizeNumber r)) rs)
     \<and> calls =
         (case bb_from body of
            NonString \<Rightarrow> []
          | Val fromv \<Rightarrow>
              map (\<lambda>r. bulk_request creds fromv (bb_text body) (normalizeNumber r))
                (filter (\<lambda>r. normalizeNumber r \<noteq> [] \<and> \<not> optouts_some os (normalizeNumber r))
                   rs))"
proof -
  have ne: "map Val rs \<noteq> []" using assms(4) by simp
  from api_send_bulk_loop [OF assms(1,2,3) ne assms(5,6), of fetch os t]
  obtain out calls t' where
    loop: "bulk_send_loop fetch creds os (bb_from body) (bb_text body) (map Val rs)
       (\<lparr>r_sent = [], r_blocked = [], r_failed = []\<rparr>, [], t) = (out, calls, t')"
    and resp: "api_send_bulk fetch creds body os t =
         (case out of Inl e \<Rightarrow> Inl e
          | Inr results \<Rightarrow> Inr (200, bulk_json (length (map Val rs)) results), calls, t')"
    by blast
  from bulk_send_loop_inv [OF loop] obtain results where
    i0: "out = Inr results"
    and i1: "length (r_sent results) + length (r_blocked results) + length (r_failed results)
     = length (r_sent \<lparr>r_sent = [], r_blocked = [], r_failed = []\<rparr>)
       + length (r_blocked \<lparr>r_sent = [], r_blocked = [], r_failed = []\<rparr>)
       + length (r_failed \<lparr>r_sent = [], r_blocked = [], r_failed = []\<rparr>) + length rs"
    and i2: "r_blocked results = r_blocked \<lparr>r_sent = [], r_blocked = [], r_failed = []\<rparr> @
        map (\<lambda>r. JO [(''to'', JS (normalizeNumber r)), (''reason'', JS ''opted-out'')])
          (filter (\<lambda>r. normalizeNumber r \<noteq> [] \<and> optouts_some os (normalizeNumber r)) rs)"
    and i3: "calls = [] @
        (case bb_from body of
           NonString \<Rightarrow> []
         | Val fromv \<Rightarrow>
             map (\<lambda>r. bulk_request creds fromv (bb_text body) (normalizeNumber r))
               (filter (\<lambda>r. normalizeNumber r \<noteq> [] \<and> \<not> optouts_some os (normalizeNumber r)) rs))"
    and i5: "\<forall>r\<in>set rs. normalizeNumber r = [] \<longrightarrow>
         JO [(''to'', JV r), (''error'', JS ''Invalid number'')] \<in> set (r_failed results)"
    by (elim exE conjE)
  have c0: "api_send_bulk fetch creds body os t =
       (Inr (200, JO [(''summary'', JO [(''total'', JN (length rs)),
                                    (''sent'', JN (length (r_sent results))),
                                    (''blocked'', JN (length (r_blocked results))),
                                    (''failed'', JN (length (r_failed results)))]),
                  (''results'', JO [(''sent'', JA (r_sent results)),
                                    (''blocked'', JA (r_blocked results)),
                                    (''failed'', JA (r_failed results))])]), calls, t')"
    using resp i0 by (simp add: bulk_json_def)
  have c1: "length (r_sent results) + length (r_blocked results) + length (r_failed results)
         = length rs"
    using i1 by simp
  have c3: "r_blocked results =
         map (\<lambda>r. JO [(''to'', JS (normalizeNumber r)), (''reason'', JS ''opted-out'')])
           (filter (\<lambda>r. normalizeNumber r \<noteq> [] \<and> optouts_some os (normalizeNumber r)) rs)"
    using i2 by simp
  have c4: "calls =
         (case bb_from body of
            NonString \<Rightarrow> []
          | Val fromv \<Rightarrow>
              map (\<lambda>r. bulk_request creds fromv (bb_text body) (normalizeNumber r))
                (filter (\<lambda>r. normalizeNumber r \<noteq> [] \<and> \<not> optouts_some os (normalizeNumber r))
                   rs))"
    using i3 by simp
  show ?thesis
    by (intro exI conjI) (rule c0, rule c1, rule i5, rule c3, rule c4)
qed

text \<open>
  Claim C9. The claim fails on a request whose recipients array holds a truthy element
  that is not a string, a JSON number for instance. \<open>normalizeNumber(recipient)\<close> is
  called outside the \<open>try\<close> of the loop body, so its \<open>TypeError\<close> leaves the handler: for a
  request that passes the request validation and whose recipients are the strings \<open>rs\<close>,
  then such an element, then any others, the handler ends with the exception and
  returns no summary, the recipient is reported in none of the three lists, and the
  transport has been called for every recipient of \<open>rs\<close> whose normalized number is not
  empty and not opted out.
\<close>

theorem bulk_send_aborts_on_non_string:
  assumes "truthy (apiKey creds)" and "truthy (apiSecret creds)"
    and "bb_recipients body = Some (map Val rs @ NonString # rest)"
    and "field_truthy (bb_from body)" and "field_truthy (bb_text body)"
  shows "\<exists>t'. api_send_bulk fetch creds body os t =
     (Inl TypeError,
      (case bb_from body of
         NonString \<Rightarrow> []
       | Val fromv \<Rightarrow>
           map (\<lambda>r. bulk_request creds fromv (bb_text body) (normalizeNumber r))
             (filter (\<lambda>r. normalizeNumber r \<noteq> [] \<and> \<not> optouts_some os (normalizeNumber r)) rs)),
      t')"
proof -
  have ne: "map Val rs @ NonString # rest \<noteq> []" by simp
  from api_send_bulk_loop [OF assms(1,2,3) ne assms(4,5), of fetch os t]
  obtain out calls t' where
    loop: "bulk_send_loop fetch creds os (bb_from body) (bb_text body)
       (map Val rs @ NonString # rest)
       (\<lparr>r_sent = [], r_blocked = [], r_failed = []\<rparr>, [], t) = (out, calls, t')"
    and resp: "api_send_bulk fetch creds body os t =
         (case out of Inl e \<Rightarrow> Inl e
          | Inr results \<Rightarrow>
              Inr (200, bulk_json (length (map Val rs @ NonString # rest)) results), calls, t')"
    by blast
  note thr = bulk_send_loop_throws [OF loop]
  from resp thr [THEN conjunct1] thr [THEN conjunct2]
  have "api_send_bulk fetch creds body os t =
     (Inl TypeError,
      (case bb_from body of
         NonString \<Rightarrow> []
       | Val fromv \<Rightarrow>
           map (\<lambda>r. bulk_request creds fromv (bb_text body) (normalizeNumber r))
             (filter (\<lambda>r. normalizeNumber r \<noteq> [] \<and> \<not> optouts_some os (normalizeNumber r)) rs)),
      t')"
    by simp
  then show ?thesis by blast
qed

theorem bulk_send_aborts_on_non_string_witness:
  "truthy (apiKey \<lparr>apiKey = JStr ''key'', apiSecret = JStr ''secret''\<rparr>)
   \<and> truthy (apiSecret \<lparr>apiKey = JStr ''key'', apiSecret = JStr ''secret''\<rparr>)
   \<and> field_truthy (Val (JStr ''447418317717'')) \<and> field_truthy (Val (JStr ''Hello everyone!''))
   \<and> fst (api_send_bulk
        (\<lambda>(t :: nat) r. (FetchData (JO [])
            (Some \<lparr>m_status = JStr ''0'', m_message_id = JStr ''abc123'',
                   m_error_text = JUndefined\<rparr>), Suc t))
        \<lparr>apiKey = JStr ''key'', apiSecret = JStr ''secret''\<rparr>
        \<lparr>bb_recipients = Some [Val (JStr ''447123456789''), NonString,
                                Val (JStr ''447555555555'')],
         bb_from = Val (JStr ''447418317717''), bb_text = Val (JStr ''Hello everyone!'')\<rparr>
        [OStr ''447987654321''] 0)
      = Inl TypeError
   \<and> fst (snd (api_send_bulk
        (\<lambda>(t :: nat) r. (FetchData (JO [])
            (Some \<lparr>m_status = JStr ''0'', m_message_id = JStr ''abc123'',
                   m_error_text = JUndefined\<rparr>), Suc t))
        \<lparr>apiKey = JStr ''key'', apiSecret = JStr ''secret''\<rparr>
        \<lparr>bb_recipients = Some [Val (JStr ''447123456789''), NonString,
                                Val (JStr ''447555555555'')],
         bb_from = Val (JStr ''447418317717''), bb_text = Val (JStr ''Hello everyone!'')\<rparr>
        [OStr ''447987654321''] 0))
      = [\<lparr>api_key = Val (JStr ''key''), api_secret = Val (JStr ''secret''),
          sms_to = ''447123456789'', sms_from = Val (JStr ''447418317717''),
          sms_text = Val (JStr ''Hello everyone!'')\<rparr>]"
proof -
  let ?fetch = "\<lambda>(t :: nat) (r :: sms_request). (FetchData (JO [])
            (Some \<lparr>m_status = JStr ''0'', m_message_id = JStr ''abc123'',
                   m_error_text = JUndefined\<rparr>), Suc t)"
  let ?creds = "\<lparr>apiKey = JStr ''key'', apiSecret = JStr ''secret''\<rparr>"
  let ?rs = "[JStr ''447123456789'']"
  let ?rest = "[Val (JStr ''447555555555'')]"
  let ?body = "\<lparr>bb_recipients = Some [Val (JStr ''447123456789''), NonString,
                                Val (JStr ''447555555555'')],
         bb_from = Val (JStr ''447418317717''), bb_text = Val (JStr ''Hello everyone!'')\<rparr>"
  let ?os = "[OStr ''447987654321'']"
  have h1: "truthy (apiKey ?creds)" and h2: "truthy (apiSecret ?creds)" by simp_all
  have h3: "bb_recipients ?body = Some (map Val ?rs @ NonString # ?rest)" by simp
  have h4: "field_truthy (bb_from ?body)" and h5: "field_truthy (bb_text ?body)" by simp_all
  have ev: "(case bb_from ?body of
         NonString \<Rightarrow> []
       | Val fromv \<Rightarrow>
           map (\<lambda>r. bulk_request ?creds fromv (bb_text ?body) (normalizeNumber r))
             (filter (\<lambda>r. normalizeNumber r \<noteq> [] \<and> \<not> optouts_some ?os (normalizeNumber r)) ?rs))
      = [\<lparr>api_key = Val (JStr ''key''), api_secret = Val (JStr ''secret''),
          sms_to = ''447123456789'', sms_from = Val (JStr ''447418317717''),
          sms_text = Val (JStr ''Hello everyone!'')\<rparr>]"
    by code_simp
  from bulk_send_aborts_on_non_string [OF h1 h2 h3 h4 h5, of ?fetch ?os 0]
  obtain t' where
    r: "api_send_bulk ?fetch ?creds ?body ?os 0 =
     (Inl TypeError,
      (case bb_from ?body of
         NonString \<Rightarrow> []
       | Val fromv \<Rightarrow>
           map (\<lambda>r. bulk_request ?creds fromv (bb_text ?body) (normalizeNumber r))
             (filter (\<lambda>r. normalizeNumber r \<noteq> [] \<and> \<not> optouts_some ?os (normalizeNumber r)) ?rs)),
      t')"
    by blast
  have a: "fst (api_send_bulk ?fetch ?creds ?body ?os 0) = Inl TypeError"
    by (simp only: r fst_conv)
  have b: "fst (snd (api_send_bulk ?fetch ?creds ?body ?os 0))
      = [\<lparr>api_key = Val (JStr ''key''), api_secret = Val (JStr ''secret''),
          sms_to = ''447123456789'', sms_from = Val (JStr ''447418317717''),
          sms_text = Val (JStr ''Hello everyone!'')\<rparr>]"
    by (simp only: r fst_conv snd_conv ev)
  from a b show ?thesis by simp
qed

subsection \<open>The single send and the SDK-compatible endpoint\<close>

lemma api_send_blocked:
  assumes "truthy (apiKey creds)" and "truthy (apiSecret creds)"
    and "b_to body = Val to" and "truthy to"
    and "field_truthy (b_from body)" and "field_truthy (b_text body)"
    and "optouts_some os (normalizeNumber to)"
  shows "api_send fetch creds body os t =
     (Inr (403, JO [(''error'', JS ''Number is opted out''),
                    (''to'', JS (normalizeNumber to)),
                    (''blocked'', JB True), (''status'', JS ''rejected'')]), [], t)"
  using assms by (simp add: api_send_def Let_def)

lemma api_send_forwarded:
  assumes "truthy (apiKey creds)" and "truthy (apiSecret creds)"
    and "b_to body = Val to" and "truthy to"
    and "b_from body = Val fromv" and "truthy fromv" and "field_truthy (b_text body)"
    and "\<not> optouts_some os (normalizeNumber to)"
  shows "snd (api_send fetch creds body os t) =
     ([\<lparr>api_key = Val (apiKey creds), api_secret = Val (apiSecret creds),
        sms_to = normalizeNumber to,
        sms_from = Val (JStr (filter is_digit (str_of fromv))),
        sms_text = b_text body\<rparr>],
      snd (fetch t \<lparr>api_key = Val (apiKey creds), api_secret = Val (apiSecret creds),
        sms_to = normalizeNumber to,
        sms_from = Val (JStr (filter is_digit (str_of fromv))),
        sms_text = b_text body\<rparr>))"
  using assms
  by (simp add: api_send_def Let_def split: prod.splits fetch_result.splits option.splits)

lemma sms_json_blocked:
  assumes "field_truthy (field_or (sb_api_key body) (Val (apiKey creds)))"
    and "field_truthy (field_or (sb_api_secret body) (Val (apiSecret creds)))"
    and "sb_to body = Val to" and "truthy to"
    and "field_truthy (sb_from body)" and "field_truthy (sb_text body)"
    and "optouts_some os (normalizeNumber to)"
  shows "sms_json fetch creds body os t =
     (Inr (200, JO [(''message-count'', JS ''1''),
                    (''messages'', JA [JO [(''to'', JS (normalizeNumber to)),
                                           (''status'', JS ''99''),
                                           (''error-text'', JS ''Number is opted out'')]])]),
      [], t)"
  using assms by (simp add: sms_json_def Let_def vonage_envelope_def)

lemma sms_json_forwarded:
  assumes "field_truthy (field_or (sb_api_key body) (Val (apiKey creds)))"
    and "field_truthy (field_or (sb_api_secret body) (Val (apiSecret creds)))"
    and "sb_to body = Val to" and "truthy to"
    and "field_truthy (sb_from body)" and "field_truthy (sb_text body)"
    and "\<not> optouts_some os (normalizeNumber to)"
  shows "snd (sms_json fetch creds body os t) =
     ([\<lparr>api_key = field_or (sb_api_key body) (Val (apiKey creds)),
        api_secret = field_or (sb_api_secret body) (Val (apiSecret creds)),
        sms_to = normalizeNumber to, sms_from = sb_from body, sms_text = sb_text body\<rparr>],
      snd (fetch t \<lparr>api_key = field_or (sb_api_key body) (Val (apiKey creds)),
        api_secret = field_or (sb_api_secret body) (Val (apiSecret creds)),
        sms_to = normalizeNumber to, sms_from = sb_from body, sms_text = sb_text body\<rparr>))"
  using assms
  by (simp add: sms_json_def Let_def split: prod.splits fetch_result.splits)

lemma api_send_bulk_gate:
  assumes "truthy (apiKey creds)" and "truthy (apiSecret creds)"
    and "bb_recipients bb = Some (map Val rs)" and "rs \<noteq> []"
    and "field_truthy (bb_from bb)" and "field_truthy (bb_text bb)"
  shows "\<exists>(results :: bulk_results) calls t'.
           api_send_bulk fetch creds bb os t =
             (Inr (200, bulk_json (length rs) results), calls, t')
           \<and> r_blocked results =
               map (\<lambda>r. JO [(''to'', JS (normalizeNumber r)), (''reason'', JS ''opted-out'')])
                 (filter (\<lambda>r. normalizeNumber r \<noteq> [] \<and> optouts_some os (normalizeNumber r)) rs)
           \<and> calls =
               (case bb_from bb of
                  NonString \<Rightarrow> []
                | Val fromv \<Rightarrow>
                    map (\<lambda>r. bulk_request creds fromv (bb_text bb) (normalizeNumber r))
                      (filter (\<lambda>r. normalizeNumber r \<noteq> []
                                    \<and> \<not> optouts_some os (normalizeNumber r)) rs))"
proof -
  have ne: "map Val rs \<noteq> []" using assms(4) by simp
  from api_send_bulk_loop [OF assms(1,2,3) ne assms(5,6), of fetch os t]
  obtain out calls t' where
    loop: "bulk_send_loop fetch creds os (bb_from bb) (bb_text bb) (map Val rs)
       (\<lparr>r_sent = [], r_blocked = [], r_failed = []\<rparr>, [], t) = (out, calls, t')"
    and resp: "api_send_bulk fetch creds bb os t =
         (case out of Inl e \<Rightarrow> Inl e
          | Inr results \<Rightarrow> Inr (200, bulk_json (length (map Val rs)) results), calls, t')"
    by blast
  from bulk_send_loop_inv [OF loop] obtain results where
    i0: "out = Inr results"
    and i2: "r_blocked results = r_blocked \<lparr>r_sent = [], r_blocked = [], r_failed = []\<rparr> @
        map (\<lambda>r. JO [(''to'', JS (normalizeNumber r)), (''reason'', JS ''opted-out'')])
          (filter (\<lambda>r. normalizeNumber r \<noteq> [] \<and> optouts_some os (normalizeNumber r)) rs)"
    and i3: "calls = [] @
        (case bb_from bb of
           NonString \<Rightarrow> []
         | Val fromv \<Rightarrow>
             map (\<lambda>r. bulk_request creds fromv (bb_text bb) (normalizeNumber r))
               (filter (\<lambda>r. normalizeNumber r \<noteq> [] \<and> \<not> optouts_some os (normalizeNumber r)) rs))"
    by (elim exE conjE)
  have c0: "api_send_bulk fetch creds bb os t =
             (Inr (200, bulk_json (length rs) results), calls, t')"
    using resp i0 by simp
  have c3: "r_blocked results =
         map (\<lambda>r. JO [(''to'', JS (normalizeNumber r)), (''reason'', JS ''opted-out'')])
           (filter (\<lambda>r. normalizeNumber r \<noteq> [] \<and> optouts_some os (normalizeNumber r)) rs)"
    using i2 by simp
  have c4: "calls =
         (case bb_from bb of
            NonString \<Rightarrow> []
          | Val fromv \<Rightarrow>
              map (\<lambda>r. bulk_request creds fromv (bb_text bb) (normalizeNumber r))
                (filter (\<lambda>r. normalizeNumber r \<noteq> []
                              \<and> \<not> optouts_some os (normalizeNumber r)) rs))"
    using i3 by simp
  show ?thesis
    by (intro exI conjI) (rule c0, rule c3, rule c4)
qed

text \<open>
  Claim C1, as amended. For a request to \<open>POST /api/send\<close> with credentials configured, or
  to \<open>POST /sms/json\<close> with credentials in the request body or else configured, whose \<open>to\<close> is
  a non-empty string and whose \<open>from\<close> and \<open>text\<close> are present: if the normalized recipient
  equals the normalized number of some entry of the opt-out list, the transport is not
  called and the answer is 403 with error \<open>Number is opted out\<close>, respectively the Vonage
  envelope with status \<open>99\<close>; otherwise exactly one transport call is made, to the
  normalized recipient (by \<open>POST /api/send\<close> when \<open>from\<close> is a string). For a request to
  \<open>POST /api/send/bulk\<close> with credentials configured, a non-empty recipients array of
  strings, a \<open>from\<close> and a \<open>text\<close>, the \<open>blocked\<close> list holds exactly the recipients whose
  normalized number is not empty and is in the opt-out list, without a transport call
  for any of them; when \<open>from\<close> is a string the transport is called exactly for the
  recipients whose normalized number is not empty and is not in the opt-out list, once
  each and in their order, and when it is not a string the transport is not called.
\<close>

theorem send_gate:
  "(truthy (apiKey creds) \<and> truthy (apiSecret creds)
      \<and> b_to sb = Val to \<and> truthy to \<and> field_truthy (b_from sb) \<and> field_truthy (b_text sb) \<longrightarrow>
        (optouts_some os (normalizeNumber to) \<longrightarrow>
           api_send fetch creds sb os t =
             (Inr (403, JO [(''error'', JS ''Number is opted out''),
                            (''to'', JS (normalizeNumber to)),
                            (''blocked'', JB True), (''status'', JS ''rejected'')]), [], t))
        \<and> (\<not> optouts_some os (normalizeNumber to) \<and> b_from sb = Val fromv \<longrightarrow>
             snd (api_send fetch creds sb os t) =
               ([\<lparr>api_key = Val (apiKey creds), api_secret = Val (apiSecret creds),
                  sms_to = normalizeNumber to,
                  sms_from = Val (JStr (filter is_digit (str_of fromv))),
                  sms_text = b_text sb\<rparr>],
                snd (fetch t
                  \<lparr>api_key = Val (apiKey creds), api_secret = Val (apiSecret creds),
                   sms_to = normalizeNumber to,
                   sms_from = Val (JStr (filter is_digit (str_of fromv))),
                   sms_text = b_text sb\<rparr>))))
   \<and> (field_truthy (field_or (sb_api_key jb) (Val (apiKey creds)))
      \<and> field_truthy (field_or (sb_api_secret jb) (Val (apiSecret creds)))
      \<and> sb_to jb = Val to \<and> truthy to \<and> field_truthy (sb_from jb) \<and> field_truthy (sb_text jb) \<longrightarrow>
        (optouts_some os (normalizeNumber to) \<longrightarrow>
           sms_json fetch creds jb os t =
             (Inr (200, JO [(''message-count'', JS ''1''),
                            (''messages'', JA [JO [(''to'', JS (normalizeNumber to)),
                                                   (''status'', JS ''99''),
                                                   (''error-text'', JS ''Number is opted out'')]])]),
              [], t))
        \<and> (\<not> optouts_some os (normalizeNumber to) \<longrightarrow>
             snd (sms_json fetch creds jb os t) =
               ([\<lparr>api_key = field_or (sb_api_key jb) (Val (apiKey creds)),
                  api_secret = field_or (sb_api_secret jb) (Val (apiSecret creds)),
                  sms_to = normalizeNumber to, sms_from = sb_from jb,
                  sms_text = sb_text jb\<rparr>],
                snd (fetch t
                  \<lparr>api_key = field_or (sb_api_key jb) (Val (apiKey creds)),
                   api_secret = field_or (sb_api_secret jb) (Val (apiSecret creds)),
                   sms_to = normalizeNumber to, sms_from = sb_from jb,
                   sms_text = sb_text jb\<rparr>))))
   \<and> (truthy (apiKey creds) \<and> truthy (apiSecret creds)
      \<and> bb_recipients bb = Some (map Val rs) \<and> rs \<noteq> []
      \<and> field_truthy (bb_from bb) \<and> field_truthy (bb_text bb) \<longrightarrow>
        (\<exists>(results :: bulk_results) calls t'.
           api_send_bulk fetch creds bb os t =
             (Inr (200, bulk_json (length rs) results), calls, t')
           \<and> r_blocked results =
               map (\<lambda>r. JO [(''to'', JS (normalizeNumber r)), (''reason'', JS ''opted-out'')])
                 (filter (\<lambda>r. normalizeNumber r \<noteq> [] \<and> optouts_some os (normalizeNumber r)) rs)
           \<and> calls =
               (case bb_from bb of
                  NonString \<Rightarrow> []
                | Val fromv \<Rightarrow>
                    map (\<lambda>r. bulk_request creds fromv (bb_text bb) (normalizeNumber r))
                      (filter (\<lambda>r. normalizeNumber r \<noteq> []
                                    \<and> \<not> optouts_some os (normalizeNumber r)) rs))))"
proof (intro conjI impI; (elim conjE)?)
  assume "truthy (apiKey creds)" "truthy (apiSecret creds)"
    "b_to sb = Val to" "truthy to" "field_truthy (b_from sb)" "field_truthy (b_text sb)"
    "optouts_some os (normalizeNumber to)"
  then show "api_send fetch creds sb os t =
             (Inr (403, JO [(''error'', JS ''Number is opted out''),
                            (''to'', JS (normalizeNumber to)),
                            (''blocked'', JB True), (''status'', JS ''rejected'')]), [], t)"
    by (rule api_send_blocked)
next
  assume a: "truthy (apiKey creds)" "truthy (apiSecret creds)"
    "b_to sb = Val to" "truthy to"
    and f: "field_truthy (b_from sb)" and x: "field_truthy (b_text sb)"
    and n: "\<not> optouts_some os (normalizeNumber to)" and v: "b_from sb = Val fromv"
  from f v have tf: "truthy fromv" by simp
  show "snd (api_send fetch creds sb os t) =
               ([\<lparr>api_key = Val (apiKey creds), api_secret = Val (apiSecret creds),
                  sms_to = normalizeNumber to,
                  sms_from = Val (JStr (filter is_digit (str_of fromv))),
                  sms_text = b_text sb\<rparr>],
                snd (fetch t
                  \<lparr>api_key = Val (apiKey creds), api_secret = Val (apiSecret creds),
                   sms_to = normalizeNumber to,
                   sms_from = Val (JStr (filter is_digit (str_of fromv))),
                   sms_text = b_text sb\<rparr>))"
    by (rule api_send_forwarded [OF a v tf x n])
next
  assume "field_truthy (field_or (sb_api_key jb) (Val (apiKey creds)))"
    "field_truthy (field_or (sb_api_secret jb) (Val (apiSecret creds)))"
    "sb_to jb = Val to" "truthy to" "field_truthy (sb_from jb)" "field_truthy (sb_text jb)"
    "optouts_some os (normalizeNumber to)"
  then show "sms_json fetch creds jb os t =
             (Inr (200, JO [(''message-count'', JS ''1''),
                            (''messages'', JA [JO [(''to'', JS (normalizeNumber to)),
                                                   (''status'', JS ''99''),
                                                   (''error-text'', JS ''Number is opted out'')]])]),
              [], t)"
    by (rule sms_json_blocked)
next
  assume "field_truthy (field_or (sb_api_key jb) (Val (apiKey creds)))"
    "field_truthy (field_or (sb_api_secret jb) (Val (apiSecret creds)))"
    "sb_to jb = Val to" "truthy to" "field_truthy (sb_from jb)" "field_truthy (sb_text jb)"
    "\<not> optouts_some os (normalizeNumber to)"
  then show "snd (sms_json fetch creds jb os t) =
               ([\<lparr>api_key = field_or (sb_api_key jb) (Val (apiKey creds)),
                  api_secret = field_or (sb_api_secret jb) (Val (apiSecret creds)),
                  sms_to = normalizeNumber to, sms_from = sb_from jb,
                  sms_text = sb_text jb\<rparr>],
                snd (fetch t
                  \<lparr>api_key = field_or (sb_api_key jb) (Val (apiKey creds)),
                   api_secret = field_or (sb_api_secret jb) (Val (apiSecret creds)),
                   sms_to = normalizeNumber to, sms_from = sb_from jb,
                   sms_text = sb_text jb\<rparr>))"
    by (rule sms_json_forwarded)
next
  assume "truthy (apiKey creds)" "truthy (apiSecret creds)"
    "bb_recipients bb = Some (map Val rs)" "rs \<noteq> []"
    "field_truthy (bb_from bb)" "field_truthy (bb_text bb)"
  then show "\<exists>(results :: bulk_results) calls t'.
           api_send_bulk fetch creds bb os t =
             (Inr (200, bulk_json (length rs) results), calls, t')
           \<and> r_blocked results =
               map (\<lambda>r. JO [(''to'', JS (normalizeNumber r)), (''reason'', JS ''opted-out'')])
                 (filter (\<lambda>r. normalizeNumber r \<noteq> [] \<and> optouts_some os (normalizeNumber r)) rs)
           \<and> calls =
               (case bb_from bb of
                  NonString \<Rightarrow> []
                | Val fromv \<Rightarrow>
                    map (\<lambda>r. bulk_request creds fromv (bb_text bb) (normalizeNumber r))
                      (filter (\<lambda>r. normalizeNumber r \<noteq> []
                                    \<and> \<not> optouts_some os (normalizeNumber r)) rs))"
    by (rule api_send_bulk_gate)
qed

theorem send_gate_witness:
  "truthy (apiKey \<lparr>apiKey = JStr ''key'', apiSecret = JStr ''secret''\<rparr>)
   \<and> truthy (apiSecret \<lparr>apiKey = JStr ''key'', apiSecret = JStr ''secret''\<rparr>)
   \<and> optouts_some [OStr ''447700900000''] (normalizeNumber (JStr ''+44 7700 900000''))
   \<and> api_send
        (\<lambda>(t :: nat) r. (FetchData (JO [])
            (Some \<lparr>m_status = JStr ''0'', m_message_id = JStr ''abc123'',
                   m_error_text = JUndefined\<rparr>), Suc t))
        \<lparr>apiKey = JStr ''key'', apiSecret = JStr ''secret''\<rparr>
        \<lparr>b_to = Val (JStr ''+44 7700 900000''), b_from = Val (JStr ''447418317717''),
         b_text = Val (JStr ''Hi'')\<rparr>
        [OStr ''447700900000''] 0
      = (Inr (403, JO [(''error'', JS ''Number is opted out''), (''to'', JS ''447700900000''),
                       (''blocked'', JB True), (''status'', JS ''rejected'')]), [], 0)
   \<and> field_truthy (field_or (Val (JStr ''k2'')) (Val JUndefined))
   \<and> field_truthy (field_or (Val (JStr ''s2'')) (Val JUndefined))
   \<and> sms_json
        (\<lambda>(t :: nat) r. (FetchData (JO [])
            (Some \<lparr>m_status = JStr ''0'', m_message_id = JStr ''abc123'',
                   m_error_text = JUndefined\<rparr>), Suc t))
        \<lparr>apiKey = JUndefined, apiSecret = JUndefined\<rparr>
        \<lparr>sb_api_key = Val (JStr ''k2''), sb_api_secret = Val (JStr ''s2''),
         sb_to = Val (JStr ''+44 7700 900000''), sb_from = Val (JStr ''447418317717''),
         sb_text = Val (JStr ''Hi'')\<rparr>
        [OStr ''447700900000''] 0
      = (Inr (200, JO [(''message-count'', JS ''1''),
                       (''messages'', JA [JO [(''to'', JS ''447700900000''),
                                              (''status'', JS ''99''),
                                              (''error-text'', JS ''Number is opted out'')]])]),
         [], 0)
   \<and> \<not> optouts_some [OStr ''447700900000''] (normalizeNumber (JStr ''447123456789''))
   \<and> snd (api_send
        (\<lambda>(t :: nat) r. (FetchData (JO [])
            (Some \<lparr>m_status = JStr ''0'', m_message_id = JStr ''abc123'',
                   m_error_text = JUndefined\<rparr>), Suc t))
        \<lparr>apiKey = JStr ''key'', apiSecret = JStr ''secret''\<rparr>
        \<lparr>b_to = Val (JStr ''447123456789''), b_from = Val (JStr ''+44 7418 317717''),
         b_text = Val (JStr ''Hi'')\<rparr>
        [OStr ''447700900000''] 0)
      = ([\<lparr>api_key = Val (JStr ''key''), api_secret = Val (JStr ''secret''),
           sms_to = ''447123456789'', sms_from = Val (JStr ''447418317717''),
           sms_text = Val (JStr ''Hi'')\<rparr>], 1)
   \<and> snd (sms_json
        (\<lambda>(t :: nat) r. (FetchData (JO [])
            (Some \<lparr>m_status = JStr ''0'', m_message_id = JStr ''abc123'',
                   m_error_text = JUndefined\<rparr>), Suc t))
        \<lparr>apiKey = JUndefined, apiSecret = JUndefined\<rparr>
        \<lparr>sb_api_key = Val (JStr ''k2''), sb_api_secret = Val (JStr ''s2''),
         sb_to = Val (JStr ''447123456789''), sb_from = Val (JStr ''447418317717''),
         sb_text = Val (JStr ''Hi'')\<rparr>
        [OStr ''447700900000''] 0)
      = ([\<lparr>api_key = Val (JStr ''k2''), api_secret = Val (JStr ''s2''),
           sms_to = ''447123456789'', sms_from = Val (JStr ''447418317717''),
           sms_text = Val (JStr ''Hi'')\<rparr>], 1)
   \<and> fst (snd (api_send_bulk
        (\<lambda>(t :: nat) r. (FetchData (JO [])
            (Some \<lparr>m_status = JStr ''0'', m_message_id = JStr ''abc123'',
                   m_error_text = JUndefined\<rparr>), Suc t))
        \<lparr>apiKey = JStr ''key'', apiSecret = JStr ''secret''\<rparr>
        \<lparr>bb_recipients = Some [Val (JStr ''+44 7700 900000''), Val (JStr ''447123456789'')],
         bb_from = Val (JStr ''447418317717''), bb_text = Val (JStr ''Hi'')\<rparr>
        [OStr ''447700900000''] 0))
      = [\<lparr>api_key = Val (JStr ''key''), api_secret = Val (JStr ''secret''),
          sms_to = ''447123456789'', sms_from = Val (JStr ''447418317717''),
          sms_text = Val (JStr ''Hi'')\<rparr>]"
proof -
  let ?fetch = "\<lambda>(t :: nat) (r :: sms_request). (FetchData (JO [])
            (Some \<lparr>m_status = JStr ''0'', m_message_id = JStr ''abc123'',
                   m_error_text = JUndefined\<rparr>), Suc t)"
  let ?creds = "\<lparr>apiKey = JStr ''key'', apiSecret = JStr ''secret''\<rparr>"
  let ?none = "\<lparr>apiKey = JUndefined, apiSecret = JUndefined\<rparr>"
  let ?b1 = "\<lparr>b_to = Val (JStr ''+44 7700 900000''), b_from = Val (JStr ''447418317717''),
         b_text = Val (JStr ''Hi'')\<rparr>"
  let ?b2 = "\<lparr>b_to = Val (JStr ''447123456789''), b_from = Val (JStr ''+44 7418 317717''),
         b_text = Val (JStr ''Hi'')\<rparr>"
  let ?j1 = "\<lparr>sb_api_key = Val (JStr ''k2''), sb_api_secret = Val (JStr ''s2''),
         sb_to = Val (JStr ''+44 7700 900000''), sb_from = Val (JStr ''447418317717''),
         sb_text = Val (JStr ''Hi'')\<rparr>"
  let ?j2 = "\<lparr>sb_api_key = Val (JStr ''k2''), sb_api_secret = Val (JStr ''s2''),
         sb_to = Val (JStr ''447123456789''), sb_from = Val (JStr ''447418317717''),
         sb_text = Val (JStr ''Hi'')\<rparr>"
  let ?rs = "[JStr ''+44 7700 900000'', JStr ''447123456789'']"
  let ?bb = "\<lparr>bb_recipients = Some [Val (JStr ''+44 7700 900000''), Val (JStr ''447123456789'')],
         bb_from = Val (JStr ''447418317717''), bb_text = Val (JStr ''Hi'')\<rparr>"
  let ?os = "[OStr ''447700900000'']"
  have h1: "truthy (apiKey ?creds)" and h2: "truthy (apiSecret ?creds)" by simp_all
  have k1: "field_truthy (field_or (Val (JStr ''k2'')) (Val JUndefined))"
    and k2: "field_truthy (field_or (Val (JStr ''s2'')) (Val JUndefined))"
    by (simp_all add: field_or_def)
  have n1: "normalizeNumber (JStr ''+44 7700 900000'') = ''447700900000''" by code_simp
  have n2: "normalizeNumber (JStr ''447123456789'') = ''447123456789''" by code_simp
  have blocked: "optouts_some ?os ''447700900000''" by code_simp
  have free: "\<not> optouts_some ?os ''447123456789''" by code_simp
  have ev: "map (\<lambda>r. bulk_request ?creds (JStr ''447418317717'') (Val (JStr ''Hi''))
                   (normalizeNumber r))
             (filter (\<lambda>r. normalizeNumber r \<noteq> [] \<and> \<not> optouts_some ?os (normalizeNumber r)) ?rs)
      = [\<lparr>api_key = Val (JStr ''key''), api_secret = Val (JStr ''secret''),
          sms_to = ''447123456789'', sms_from = Val (JStr ''447418317717''),
          sms_text = Val (JStr ''Hi'')\<rparr>]"
    by code_simp
  note g1 = send_gate [where creds = ?creds and sb = ?b1 and os = ?os and fetch = ?fetch
      and t = 0 and to = "JStr ''+44 7700 900000''"]
  note g2 = send_gate [where creds = ?none and jb = ?j1 and os = ?os and fetch = ?fetch
      and t = 0 and to = "JStr ''+44 7700 900000''"]
  note g3 = send_gate [where creds = ?creds and sb = ?b2 and os = ?os and fetch = ?fetch
      and t = 0 and to = "JStr ''447123456789''" and fromv = "JStr ''+44 7418 317717''"]
  note g4 = send_gate [where creds = ?none and jb = ?j2 and os = ?os and fetch = ?fetch
      and t = 0 and to = "JStr ''447123456789''"]
  note g5 = send_gate [where creds = ?creds and bb = ?bb and rs = ?rs and os = ?os
      and fetch = ?fetch and t = 0]
  from g1 [THEN conjunct1] blocked
  have r1: "api_send ?fetch ?creds ?b1 ?os 0
      = (Inr (403, JO [(''error'', JS ''Number is opted out''), (''to'', JS ''447700900000''),
                       (''blocked'', JB True), (''status'', JS ''rejected'')]), [], 0)"
    by (simp add: n1)
  from g2 [THEN conjunct2, THEN conjunct1] blocked k1 k2
  have r2: "sms_json ?fetch ?none ?j1 ?os 0
      = (Inr (200, JO [(''message-count'', JS ''1''),
                       (''messages'', JA [JO [(''to'', JS ''447700900000''),
                                              (''status'', JS ''99''),
                                              (''error-text'', JS ''Number is opted out'')]])]),
         [], 0)"
    by (simp add: n1)
  from g3 [THEN conjunct1] free
  have r3: "snd (api_send ?fetch ?creds ?b2 ?os 0)
      = ([\<lparr>api_key = Val (JStr ''key''), api_secret = Val (JStr ''secret''),
           sms_to = ''447123456789'', sms_from = Val (JStr ''447418317717''),
           sms_text = Val (JStr ''Hi'')\<rparr>], 1)"
    by (simp add: n2 is_digit_def)
  from g4 [THEN conjunct2, THEN conjunct1] free k1 k2
  have r4: "snd (sms_json ?fetch ?none ?j2 ?os 0)
      = ([\<lparr>api_key = Val (JStr ''k2''), api_secret = Val (JStr ''s2''),
           sms_to = ''447123456789'', sms_from = Val (JStr ''447418317717''),
           sms_text = Val (JStr ''Hi'')\<rparr>], 1)"
    by (simp add: n2 field_or_def)
  from g5 [THEN conjunct2, THEN conjunct2]
  obtain results calls t' where
    r: "api_send_bulk ?fetch ?creds ?bb ?os 0 = (Inr (200, bulk_json (length ?rs) results), calls, t')"
    and c: "calls = (case bb_from ?bb of
                  NonString \<Rightarrow> []
                | Val fromv \<Rightarrow>
                    map (\<lambda>r. bulk_request ?creds fromv (bb_text ?bb) (normalizeNumber r))
                      (filter (\<lambda>r. normalizeNumber r \<noteq> []
                                    \<and> \<not> optouts_some ?os (normalizeNumber r)) ?rs))"
    by auto
  from c ev have c': "calls = [\<lparr>api_key = Val (JStr ''key''), api_secret = Val (JStr ''secret''),
          sms_to = ''447123456789'', sms_from = Val (JStr ''447418317717''),
          sms_text = Val (JStr ''Hi'')\<rparr>]"
    by simp
  have r5: "fst (snd (api_send_bulk ?fetch ?creds ?bb ?os 0))
      = [\<lparr>api_key = Val (JStr ''key''), api_secret = Val (JStr ''secret''),
          sms_to = ''447123456789'', sms_from = Val (JStr ''447418317717''),
          sms_text = Val (JStr ''Hi'')\<rparr>]"
    by (simp only: r c' fst_conv snd_conv)
  show ?thesis
    using h1 h2 k1 k2 blocked free r1 r2 r3 r4 r5 by (simp only: n1 n2 simp_thms)
qed

theorem send_gate_counterexample:
  "optouts_some
     (optouts (snd (api_optout 5 (JStr ''n/a'') \<lparr>optouts = [], history = []\<rparr>)))
     (normalizeNumber (JStr ''n/a''))
   \<and> api_send_bulk
        (\<lambda>(t :: nat) r. (FetchData (JO [])
            (Some \<lparr>m_status = JStr ''0'', m_message_id = JStr ''abc123'',
                   m_error_text = JUndefined\<rparr>), Suc t))
        \<lparr>apiKey = JStr ''key'', apiSecret = JStr ''secret''\<rparr>
        \<lparr>bb_recipients = Some [Val (JStr ''n/a'')], bb_from = Val (JStr ''447418317717''),
         bb_text = Val (JStr ''Hi'')\<rparr>
        (optouts (snd (api_optout 5 (JStr ''n/a'') \<lparr>optouts = [], history = []\<rparr>))) 0
      = (Inr (200, JO [(''summary'', JO [(''total'', JN 1), (''sent'', JN 0),
                                         (''blocked'', JN 0), (''failed'', JN 1)]),
                       (''results'', JO [(''sent'', JA []), (''blocked'', JA []),
                          (''failed'', JA [JO [(''to'', JV (JStr ''n/a'')),
                                               (''error'', JS ''Invalid number'')]])])]),
         [], 0)"
  by code_simp

subsection \<open>The webhook on fields of any type\<close>

text \<open>On a payload whose fields are strings or absent the webhook is \<open>handleInboundSMS\<close>.\<close>

lemma handleInboundSMS_depends:
  "inbound_from d1 = inbound_from d2 \<Longrightarrow> p_to d1 = p_to d2 \<Longrightarrow>
   inbound_text d1 = inbound_text d2 \<Longrightarrow>
   handleInboundSMS configs now d1 st = handleInboundSMS configs now d2 st"
  by (simp add: handleInboundSMS_def)

lemma handleInboundSMS_any_strings:
  "handleInboundSMS_any configs now
     \<lparr>r_msisdn = Val a, r_from = Val b, r_to = Val c, r_text = Val d, r_message = Val e\<rparr> st
   = Inr (handleInboundSMS configs now
            \<lparr>p_msisdn = a, p_from = b, p_to = c, p_text = d, p_message = e\<rparr> st)"
proof -
  let ?d = "\<lparr>p_msisdn = a, p_from = b, p_to = c, p_text = d, p_message = e\<rparr>"
  let ?from = "js_or a b"
  let ?tv = "js_or (js_or d e) (JStr [])"
  have f: "field_or (Val a) (Val b) = Val ?from"
    by (simp add: field_or_def js_or_def)
  have x: "field_or (field_or (Val d) (Val e)) (Val (JStr [])) = Val ?tv"
    by (simp add: field_or_def js_or_def)
  have tx: "inbound_text ?d = toUpperCase (trim (str_of ?tv))"
    by (simp add: inbound_text_def)
  have fr: "inbound_from ?d = ?from"
    by (simp add: inbound_from_def)
  show ?thesis
  proof (cases "\<not> truthy ?from \<or> toUpperCase (trim (str_of ?tv)) = []")
    case True
    then have "handleInboundSMS configs now ?d st = ((200, JS ''OK''), st)"
      using handleInboundSMS_discard [of ?d configs now st] by (simp only: tx fr)
    with True show ?thesis
      by (auto simp add: handleInboundSMS_any_def f x Let_def)
  next
    case False
    then have t: "truthy ?from" by simp
    have "handleInboundSMS configs now
            \<lparr>p_msisdn = ?from, p_from = JUndefined, p_to = c, p_text = ?tv,
             p_message = JUndefined\<rparr> st
          = handleInboundSMS configs now ?d st"
    proof (rule handleInboundSMS_depends)
      show "inbound_from \<lparr>p_msisdn = ?from, p_from = JUndefined, p_to = c, p_text = ?tv,
             p_message = JUndefined\<rparr> = inbound_from ?d"
        using t by (simp add: inbound_from_def js_or_def)
      show "p_to \<lparr>p_msisdn = ?from, p_from = JUndefined, p_to = c, p_text = ?tv,
             p_message = JUndefined\<rparr> = p_to ?d"
        by simp
      show "inbound_text \<lparr>p_msisdn = ?from, p_from = JUndefined, p_to = c, p_text = ?tv,
             p_message = JUndefined\<rparr> = inbound_text ?d"
        by (simp add: inbound_text_def js_or_def)
    qed
    with False show ?thesis
      by (auto simp add: handleInboundSMS_any_def f x Let_def)
  qed
qed

text \<open>
  Claim C5. The claim fails on a payload with a truthy field that is not a string: a
  JSON number, or the array that a repeated query parameter is parsed to. Whatever the
  configurations are, and so also when none of them matches the destination: when
  \<open>data.text || data.message || ''\<close> is not a string, \<open>.trim()\<close> throws before the test for a
  missing sender or text; and when the text is a string that is not blank and the
  sender is present, \<open>normalizeNumber(to)\<close> or \<open>normalizeNumber(from)\<close> throws on a destination
  or a sender that is not a string. The handler is left by the exception, with no bare
  200 acknowledgment; the state is not written.
\<close>

theorem inbound_non_string_field_throws:
  "(field_or (field_or (r_text data) (r_message data)) (Val (JStr [])) = NonString \<longrightarrow>
      handleInboundSMS_any configs now data st = Inl TypeError)
   \<and> (field_or (field_or (r_text data) (r_message data)) (Val (JStr [])) = Val tv
      \<and> toUpperCase (trim (str_of tv)) \<noteq> []
      \<and> field_truthy (field_or (r_msisdn data) (r_from data))
      \<and> (r_to data = NonString \<or> field_or (r_msisdn data) (r_from data) = NonString) \<longrightarrow>
      handleInboundSMS_any configs now data st = Inl TypeError)"
proof (intro conjI impI; (elim conjE)?)
  assume "field_or (field_or (r_text data) (r_message data)) (Val (JStr [])) = NonString"
  then show "handleInboundSMS_any configs now data st = Inl TypeError"
    by (simp add: handleInboundSMS_any_def Let_def)
next
  assume x: "field_or (field_or (r_text data) (r_message data)) (Val (JStr [])) = Val tv"
    and b: "toUpperCase (trim (str_of tv)) \<noteq> []"
    and f: "field_truthy (field_or (r_msisdn data) (r_from data))"
    and n: "r_to data = NonString \<or> field_or (r_msisdn data) (r_from data) = NonString"
  show "handleInboundSMS_any configs now data st = Inl TypeError"
  proof (cases "r_to data")
    case NonString
    with x b f show ?thesis by (simp add: handleInboundSMS_any_def Let_def)
  next
    case (Val tov)
    with n have "field_or (r_msisdn data) (r_from data) = NonString" by simp
    with x b Val show ?thesis by (simp add: handleInboundSMS_any_def Let_def)
  qed
qed

theorem inbound_non_string_field_throws_witness:
  "field_or (field_or NonString (Val JUndefined)) (Val (JStr [])) = NonString
   \<and> handleInboundSMS_any [] 5
        \<lparr>r_msisdn = Val (JStr ''447700900000''), r_from = Val JUndefined,
         r_to = Val (JStr ''15550001111''), r_text = NonString, r_message = Val JUndefined\<rparr>
        \<lparr>optouts = [], history = []\<rparr>
      = Inl TypeError
   \<and> field_or (field_or (Val (JStr ''hello'')) (Val JUndefined)) (Val (JStr []))
        = Val (JStr ''hello'')
   \<and> toUpperCase (trim (str_of (JStr ''hello''))) \<noteq> []
   \<and> field_truthy (field_or (Val (JStr ''447700900000'')) (Val JUndefined))
   \<and> handleInboundSMS_any [] 5
        \<lparr>r_msisdn = Val (JStr ''447700900000''), r_from = Val JUndefined,
         r_to = NonString, r_text = Val (JStr ''hello''), r_message = Val JUndefined\<rparr>
        \<lparr>optouts = [], history = []\<rparr>
      = Inl TypeError"
proof -
  let ?d1 = "\<lparr>r_msisdn = Val (JStr ''447700900000''), r_from = Val JUndefined,
         r_to = Val (JStr ''15550001111''), r_text = NonString, r_message = Val JUndefined\<rparr>"
  let ?d2 = "\<lparr>r_msisdn = Val (JStr ''447700900000''), r_from = Val JUndefined,
         r_to = NonString, r_text = Val (JStr ''hello''), r_message = Val JUndefined\<rparr>"
  let ?st = "\<lparr>optouts = [], history = []\<rparr>"
  have a1: "field_or (field_or NonString (Val JUndefined)) (Val (JStr [])) = NonString"
    by (simp add: field_or_def)
  have a2: "field_or (field_or (Val (JStr ''hello'')) (Val JUndefined)) (Val (JStr []))
        = Val (JStr ''hello'')"
    by (simp add: field_or_def)
  have a3: "toUpperCase (trim (str_of (JStr ''hello''))) \<noteq> []" by code_simp
  have a4: "field_truthy (field_or (Val (JStr ''447700900000'')) (Val JUndefined))"
    by (simp add: field_or_def)
  note g1 = inbound_non_string_field_throws [where data = ?d1 and configs = "[]" and now = 5
      and st = ?st, THEN conjunct1]
  note g2 = inbound_non_string_field_throws [where data = ?d2 and configs = "[]" and now = 5
      and st = ?st and tv = "JStr ''hello''", THEN conjunct2]
  from g1 a1 have r1: "handleInboundSMS_any [] 5 ?d1 ?st = Inl TypeError" by simp
  from g2 a2 a3 a4 have r2: "handleInboundSMS_any [] 5 ?d2 ?st = Inl TypeError" by simp
  from a1 r1 a2 a3 a4 r2 show ?thesis by (intro conjI)
qed

end
